theory Spec2Isabelle
  imports Main "HOL-Library.Sublist"
begin

section \<open>Texts, lines and the target file\<close>

text \<open>
  The repository holds two Python scripts that rewrite one file,
  \<^verbatim>\<open>app/add-inventory.tsx\<close>: \<^verbatim>\<open>fix_builtup.py\<close> splices a block of text after a
  marker line, \<^verbatim>\<open>reconstruct_inventory.py\<close> overwrites the whole file with a literal.

  A text is a \<^typ>\<open>string\<close>. A character outside ASCII stands as the bytes of its UTF-8
  encoding (the box-drawing character of the start marker is \<open>E2 94 80\<close>). The scripts
  only test texts for equality, search one text inside another and cut at line feeds,
  which gives the same answers on UTF-8 bytes as on code points.
\<close>

datatype error = OSError | UnicodeDecodeError | ValueError | IndexError

text \<open>
  The world a script runs in: the bytes of the target file (\<open>None\<close> when it cannot be
  opened for reading), whether it can be opened for writing, the lines printed so far and
  the number of times the file has been opened for writing (each such opening truncates).
\<close>

record world =
  content :: "string option"
  writable :: bool
  stdout :: "string list"
  writes :: nat

definition LF :: char where
  "LF = CHR 0x0A"

definition CR :: char where
  "CR = CHR 0x0D"

text \<open>
  \<^verbatim>\<open>open(filepath, "r")\<close> reads in text mode with universal newlines: \<open>CR LF\<close> and a
  lone \<open>CR\<close> arrive as \<open>LF\<close>.
\<close>

fun universal_newlines :: "string \<Rightarrow> string" where
  "universal_newlines [] = []"
| "universal_newlines [c] = (if c = CR then [LF] else [c])"
| "universal_newlines (c # d # ds) =
     (if c = CR \<and> d = LF then LF # universal_newlines ds
      else if c = CR then LF # universal_newlines (d # ds)
      else c # universal_newlines (d # ds))"

text \<open>
  \<^verbatim>\<open>f.readlines()\<close>: the text cut after every line feed, each line keeping its line feed;
  a last line without one is kept as it is. \<open>cur\<close> is the line being collected.
\<close>

fun split_lines :: "string \<Rightarrow> string \<Rightarrow> string list" where
  "split_lines cur [] = (if cur = [] then [] else [cur])"
| "split_lines cur (c # cs) =
     (if c = LF then (cur @ [c]) # split_lines [] cs else split_lines (cur @ [c]) cs)"

definition readlines :: "string \<Rightarrow> string list" where
  "readlines txt = split_lines [] (universal_newlines txt)"

text \<open>
  The file is opened in text mode with the default encoding, UTF-8 on the macOS the path
  belongs to, and decoded strictly. A continuation byte is one of \<open>80\<close> to \<open>BF\<close>; the
  byte after a lead byte is narrower after \<open>E0\<close>, \<open>ED\<close>, \<open>F0\<close> and \<open>F4\<close>, which
  excludes overlong forms, surrogates and code points beyond \<open>10FFFF\<close>.
\<close>

definition continuation :: "char \<Rightarrow> bool" where
  "continuation c = (0x80 \<le> (of_char c :: nat) \<and> (of_char c :: nat) \<le> 0xBF)"

definition second_byte :: "nat \<Rightarrow> char \<Rightarrow> bool" where
  "second_byte lead c =
     (if lead = 0xE0 then 0xA0 \<le> (of_char c :: nat) \<and> (of_char c :: nat) \<le> 0xBF
      else if lead = 0xED then 0x80 \<le> (of_char c :: nat) \<and> (of_char c :: nat) \<le> 0x9F
      else if lead = 0xF0 then 0x90 \<le> (of_char c :: nat) \<and> (of_char c :: nat) \<le> 0xBF
      else if lead = 0xF4 then 0x80 \<le> (of_char c :: nat) \<and> (of_char c :: nat) \<le> 0x8F
      else continuation c)"

fun utf8_valid :: "string \<Rightarrow> bool" where
  "utf8_valid [] = True"
| "utf8_valid (b # bs) =
     (if (of_char b :: nat) < 0x80 then utf8_valid bs
      else if 0xC2 \<le> (of_char b :: nat) \<and> (of_char b :: nat) \<le> 0xDF
      then (case bs of
              c1 # r \<Rightarrow> continuation c1 \<and> utf8_valid r
            | _ \<Rightarrow> False)
      else if 0xE0 \<le> (of_char b :: nat) \<and> (of_char b :: nat) \<le> 0xEF
      then (case bs of
              c1 # c2 # r \<Rightarrow> second_byte (of_char b) c1 \<and> continuation c2 \<and> utf8_valid r
            | _ \<Rightarrow> False)
      else if 0xF0 \<le> (of_char b :: nat) \<and> (of_char b :: nat) \<le> 0xF4
      then (case bs of
              c1 # c2 # c3 # r \<Rightarrow>
                second_byte (of_char b) c1 \<and> continuation c2 \<and> continuation c3 \<and> utf8_valid r
            | _ \<Rightarrow> False)
      else False)"

text \<open>
  \<^verbatim>\<open>open(filepath, "r")\<close> and \<^verbatim>\<open>f.readlines()\<close> up to the decoded text: the file
  must open, and its bytes must decode. The text is kept as its bytes.
\<close>

definition read_file :: "world \<Rightarrow> error + string" where
  "read_file w =
     (case content w of
        None \<Rightarrow> Inl OSError
      | Some bytes \<Rightarrow> if utf8_valid bytes then Inr bytes else Inl UnicodeDecodeError)"

text \<open>
  \<^verbatim>\<open>with open(filepath, "w") as f: f.write(txt)\<close>: the file is truncated and holds
  the bytes of \<open>txt\<close> afterwards (the path is a macOS one, where a line feed is written
  as it is; a text that was decoded, or a literal of the scripts, always encodes).
\<close>

definition write_file :: "string \<Rightarrow> world \<Rightarrow> error + world" where
  "write_file txt w =
     (if writable w then Inr (w\<lparr>content := Some txt, writes := writes w + 1\<rparr>)
      else Inl OSError)"

text \<open>\<^verbatim>\<open>f.writelines(ls)\<close> writes the lines one after the other, adding nothing.\<close>

definition writelines :: "string list \<Rightarrow> world \<Rightarrow> error + world" where
  "writelines ls w = write_file (concat ls) w"

definition print :: "string \<Rightarrow> world \<Rightarrow> world" where
  "print msg w = w\<lparr>stdout := stdout w @ [msg]\<rparr>"

section \<open>Python's string and list primitives\<close>

text \<open>\<^verbatim>\<open>sub in s\<close> on strings: \<open>sub\<close> occurs in \<open>s\<close> as a contiguous piece.\<close>

fun str_in :: "string \<Rightarrow> string \<Rightarrow> bool" where
  "str_in sub [] = (sub = [])"
| "str_in sub (c # cs) = (prefix sub (c # cs) \<or> str_in sub cs)"

text \<open>\<^verbatim>\<open>xs.index(x)\<close>: the position of the first element equal to \<open>x\<close>.\<close>

fun list_index :: "'a list \<Rightarrow> 'a \<Rightarrow> error + nat" where
  "list_index [] x = Inl ValueError"
| "list_index (y # ys) x =
     (if y = x then Inr 0
      else case list_index ys x of Inl e \<Rightarrow> Inl e | Inr i \<Rightarrow> Inr (Suc i))"

text \<open>\<^verbatim>\<open>xs[i]\<close> for an index that is not negative.\<close>

definition subscript :: "'a list \<Rightarrow> nat \<Rightarrow> error + 'a" where
  "subscript xs i = (if i < length xs then Inr (xs ! i) else Inl IndexError)"

section \<open>fix_builtup.py\<close>

definition box :: string where
  "box = [CHR 0xE2, CHR 0x94, CHR 0x80]"

definition start_marker :: string where
  "start_marker =
     ''// '' @ box @ box @ box @ '' Builtup Detail/Type Fetching effects '' @
     box @ box @ box @ box @ box @ box @ box @ box @ box @ box @
     box @ box @ box @ box @ box @ box @ box @ box @ box @ box @
     box @ box @ box @ box @ box @ box @ box @ box @ box @ box @
     box @ box @ box @ box @ box"

definition new_code :: string where
  \<open>new_code =
     ''    useEffect(() => {\<newline>'' @
     ''        const fetchBuiltupDetail = async () => {\<newline>'' @
     ''            if (!form.subCategory) { setBuiltupDetailLookups([]); return; }\<newline>'' @
     ''            try {\<newline>'' @
     ''                const scRes = await api.get("/lookups", { params: { lookup_type: 'SubCategory', lookup_value: form.subCategory } });\<newline>'' @
     ''                const scId = scRes.data?.data?.[0]?._id;\<newline>'' @
     ''                if (!scId) { setBuiltupDetailLookups([]); return; }\<newline>'' @
     ''                const ptRes = await api.get("/lookups", { params: { lookup_type: 'PropertyType', parent_lookup_id: scId } });\<newline>'' @
     ''                setBuiltupDetailLookups((ptRes.data?.data || []).map((pt: any) => ({ label: pt.lookup_value, value: pt.lookup_value, _id: pt._id })));\<newline>'' @
     ''            } catch (e) { console.error("Builtup Detail fetch failed", e); }\<newline>'' @
     ''        };\<newline>'' @
     ''        fetchBuiltupDetail();\<newline>'' @
     ''    }, [form.subCategory]);\<newline>'' @
     ''\<newline>'' @
     ''    useEffect(() => {\<newline>'' @
     ''        const fetchBT = async () => {\<newline>'' @
     ''            if (!form.builtupDetail) { setBtLookups([]); return; }\<newline>'' @
     ''            try {\<newline>'' @
     ''                const pt = builtupDetailLookups.find(opt => opt.value === form.builtupDetail);\<newline>'' @
     ''                if (!pt?._id) { setBtLookups([]); return; }\<newline>'' @
     ''                const btRes = await api.get("/lookups", { params: { lookup_type: 'BuiltupType', parent_lookup_id: pt._id, limit: 1000 } });\<newline>'' @
     ''                setBtLookups((btRes.data?.data || []).map((bt: any) => ({ label: bt.lookup_value, value: bt.lookup_value })));\<newline>'' @
     ''            } catch (e) { console.error("BT fetch failed", e); }\<newline>'' @
     ''        };\<newline>'' @
     ''        fetchBT();\<newline>'' @
     ''    }, [form.builtupDetail, builtupDetailLookups]);\<newline>'' @
     ''\<newline>''\<close>

record scan_state =
  new_lines :: "string list"
  skip :: bool
  found_marker :: bool

definition init :: scan_state where
  "init = \<lparr>new_lines = [], skip = False, found_marker = False\<rparr>"

text \<open>\<^verbatim>\<open>lines[lines.index(line)+1]\<close>\<close>

definition lookahead :: "string list \<Rightarrow> string \<Rightarrow> error + string" where
  "lookahead lines line =
     (case list_index lines line of Inl e \<Rightarrow> Inl e | Inr i \<Rightarrow> subscript lines (i + 1))"

text \<open>
  The end-of-region test of the loop, without its guard \<^verbatim>\<open>skip\<close>:
  \<^verbatim>\<open>"useEffect(() => {" in line and "fetchSystemData" in lines[lines.index(line)+1]\<close>.
  The right operand of \<^verbatim>\<open>and\<close> is evaluated only when the left one holds.
\<close>

definition region_end :: "string list \<Rightarrow> string \<Rightarrow> error + bool" where
  "region_end lines line =
     (if str_in ''useEffect(() => {'' line
      then (case lookahead lines line of
              Inl e \<Rightarrow> Inl e
            | Inr nxt \<Rightarrow> Inr (str_in ''fetchSystemData'' nxt))
      else Inr False)"

text \<open>One pass through the body of \<^verbatim>\<open>for line in lines\<close>.\<close>

definition body :: "string list \<Rightarrow> string \<Rightarrow> scan_state \<Rightarrow> error + scan_state" where
  "body lines line s =
     (if str_in start_marker line
      then Inr (s\<lparr>new_lines := new_lines s @ [line, new_code],
                  skip := True, found_marker := True\<rparr>)
      else case (if skip s then region_end lines line else Inr False) of
             Inl e \<Rightarrow> Inl e
           | Inr stop \<Rightarrow>
               let s1 = (if stop then s\<lparr>skip := False\<rparr> else s)
               in Inr (if \<not> skip s1 then s1\<lparr>new_lines := new_lines s1 @ [line]\<rparr> else s1))"

text \<open>The loop over the lines still to visit; \<open>lines\<close> is the whole list.\<close>

fun for_loop :: "string list \<Rightarrow> string list \<Rightarrow> scan_state \<Rightarrow> error + scan_state" where
  "for_loop lines [] s = Inr s"
| "for_loop lines (line # rest) s =
     (case body lines line s of Inl e \<Rightarrow> Inl e | Inr s' \<Rightarrow> for_loop lines rest s')"

definition scan :: "string list \<Rightarrow> error + scan_state" where
  "scan lines = for_loop lines lines init"

text \<open>
  The whole script: the error raised, if any, and the world the run leaves behind.
\<close>

definition fix_builtup :: "world \<Rightarrow> error option \<times> world" where
  "fix_builtup w =
     (case read_file w of
        Inl e \<Rightarrow> (Some e, w)
      | Inr txt \<Rightarrow>
          (case scan (readlines txt) of
             Inl e \<Rightarrow> (Some e, w)
           | Inr s \<Rightarrow>
               if found_marker s
               then (case writelines (new_lines s) w of
                       Inl e \<Rightarrow> (Some e, w)
                     | Inr w1 \<Rightarrow> (None, print ''Successfully updated the file.'' w1))
               else (None, print ''Could not find the start marker.'' w)))"


section \<open>The literal of reconstruct_inventory.py\<close>

text \<open>
  The string \<^verbatim>\<open>code\<close>, one source line per row. Its last rows are Python: a
  closing triple quote, a second write of the file and a \<^verbatim>\<open>print\<close>.
\<close>

definition code :: string where
  \<open>code =
     ''import React, { useState, useEffect } from "react";\<newline>'' @
     ''import {\<newline>'' @
     ''    View, Text, TextInput, TouchableOpacity, StyleSheet,\<newline>'' @
     ''    ScrollView, ActivityIndicator, Alert, KeyboardAvoidingView, Platform, SafeAreaView,\<newline>'' @
     ''    Modal, FlatList\<newline>'' @
     ''} from "react-native";\<newline>'' @
     ''import { useRouter } from "expo-router";\<newline>'' @
     ''import api from "./services/api";\<newline>'' @
     ''import { Ionicons } from "@expo/vector-icons";\<newline>'' @
     ''\<newline>'' @
     ''// '' @ [CHR 0xE2, CHR 0x94, CHR 0x80, CHR 0xE2, CHR 0x94, CHR 0x80, CHR 0xE2, CHR 0x94, CHR 0x80] @ '' Reusable Components '' @ [CHR 0xE2, CHR 0x94, CHR 0x80, CHR 0xE2, CHR 0x94, CHR 0x80, CHR 0xE2, CHR 0x94, CHR 0x80, CHR 0xE2, CHR 0x94, CHR 0x80, CHR 0xE2, CHR 0x94, CHR 0x80, CHR 0xE2, CHR 0x94, CHR 0x80, CHR 0xE2, CHR 0x94, CHR 0x80, CHR 0xE2, CHR 0x94, CHR 0x80, CHR 0xE2, CHR 0x94, CHR 0x80, CHR 0xE2, CHR 0x94, CHR 0x80, CHR 0xE2, CHR 0x94, CHR 0x80, CHR 0xE2, CHR 0x94, CHR 0x80, CHR 0xE2, CHR 0x94, CHR 0x80, CHR 0xE2, CHR 0x94, CHR 0x80, CHR 0xE2, CHR 0x94, CHR 0x80, CHR 0xE2, CHR 0x94, CHR 0x80, CHR 0xE2, CHR 0x94, CHR 0x80, CHR 0xE2, CHR 0x94, CHR 0x80, CHR 0xE2, CHR 0x94, CHR 0x80, CHR 0xE2, CHR 0x94, CHR 0x80, CHR 0xE2, CHR 0x94, CHR 0x80, CHR 0xE2, CHR 0x94, CHR 0x80, CHR 0xE2, CHR 0x94, CHR 0x80, CHR 0xE2, CHR 0x94, CHR 0x80, CHR 0xE2, CHR 0x94, CHR 0x80, CHR 0xE2, CHR 0x94, CHR 0x80, CHR 0xE2, CHR 0x94, CHR 0x80, CHR 0xE2, CHR 0x94, CHR 0x80, CHR 0xE2, CHR 0x94, CHR 0x80, CHR 0xE2, CHR 0x94, CHR 0x80, CHR 0xE2, CHR 0x94, CHR 0x80, CHR 0xE2, CHR 0x94, CHR 0x80, CHR 0xE2, CHR 0x94, CHR 0x80, CHR 0xE2, CHR 0x94, CHR 0x80, CHR 0xE2, CHR 0x94, CHR 0x80, CHR 0xE2, CHR 0x94, CHR 0x80, CHR 0xE2, CHR 0x94, CHR 0x80, CHR 0xE2, CHR 0x94, CHR 0x80, CHR 0xE2, CHR 0x94, CHR 0x80, CHR 0xE2, CHR 0x94, CHR 0x80, CHR 0xE2, CHR 0x94, CHR 0x80, CHR 0xE2, CHR 0x94, CHR 0x80, CHR 0xE2, CHR 0x94, CHR 0x80, CHR 0xE2, CHR 0x94, CHR 0x80, CHR 0xE2, CHR 0x94, CHR 0x80, CHR 0xE2, CHR 0x94, CHR 0x80, CHR 0xE2, CHR 0x94, CHR 0x80, CHR 0xE2, CHR 0x94, CHR 0x80, CHR 0xE2, CHR 0x94, CHR 0x80, CHR 0xE2, CHR 0x94, CHR 0x80, CHR 0xE2, CHR 0x94, CHR 0x80, CHR 0xE2, CHR 0x94, CHR 0x80, CHR 0xE2, CHR 0x94, CHR 0x80, CHR 0xE2, CHR 0x94, CHR 0x80] @ ''\<newline>'' @
     ''\<newline>'' @
     ''function SectionHeader({ title, icon }: { title: string; icon: string }) {\<newline>'' @
     ''    return (\<newline>'' @
     ''        <View style={styles.sectionHeader}>\<newline>'' @
     ''            <Text style={styles.sectionIcon}>{icon}</Text>\<newline>'' @
     ''            <Text style={styles.sectionTitle}>{title}</Text>\<newline>'' @
     ''        </View>\<newline>'' @
     ''    );\<newline>'' @
     ''}\<newline>'' @
     ''\<newline>'' @
     ''function Field({ label, required, children }: { label: string; required?: boolean; children: React.ReactNode }) {\<newline>'' @
     ''    return (\<newline>'' @
     ''        <View style={styles.field}>\<newline>'' @
     ''            <Text style={styles.fieldLabel}>\<newline>'' @
     ''                {label}\<newline>'' @
     ''                {required && <Text style={styles.required}> *</Text>}\<newline>'' @
     ''            </Text>\<newline>'' @
     ''            {children}\<newline>'' @
     ''        </View>\<newline>'' @
     ''    );\<newline>'' @
     ''}\<newline>'' @
     ''\<newline>'' @
     ''function Input({\<newline>'' @
     ''    value, onChangeText, placeholder, keyboardType, multiline, numberOfLines, editable = true,\<newline>'' @
     ''}: {\<newline>'' @
     ''    value: string; onChangeText: (t: string) => void; placeholder?: string;\<newline>'' @
     ''    keyboardType?: any; multiline?: boolean; numberOfLines?: number; editable?: boolean;\<newline>'' @
     ''}) {\<newline>'' @
     ''    return (\<newline>'' @
     ''        <TextInput\<newline>'' @
     ''            style={[styles.input, multiline && { height: 80, textAlignVertical: "top" }, !editable && { backgroundColor: "#F1F5F9", color: "#94A3B8" }]}\<newline>'' @
     ''            value={value}\<newline>'' @
     ''            onChangeText={onChangeText}\<newline>'' @
     ''            placeholder={placeholder ?? ""}\<newline>'' @
     ''            placeholderTextColor="#9CA3AF"\<newline>'' @
     ''            keyboardType={keyboardType ?? "default"}\<newline>'' @
     ''            multiline={multiline}\<newline>'' @
     ''            numberOfLines={numberOfLines}\<newline>'' @
     ''            editable={editable}\<newline>'' @
     ''        />\<newline>'' @
     ''    );\<newline>'' @
     ''}\<newline>'' @
     ''\<newline>'' @
     ''function SelectButton({\<newline>'' @
     ''    value, placeholder, options, onSelect,\<newline>'' @
     ''}: {\<newline>'' @
     ''    value: string; placeholder: string; options: { label: string, value: string }[]; onSelect: (v: string) => void;\<newline>'' @
     ''}) {\<newline>'' @
     ''    if (options.length === 0) return <Text style={{ color: '#9CA3AF', fontSize: 13, padding: 8 }}>{placeholder}</Text>;\<newline>'' @
     ''\<newline>'' @
     ''    return (\<newline>'' @
     ''        <ScrollView horizontal showsHorizontalScrollIndicator={false} style={styles.chipRow}>\<newline>'' @
     ''            {options.map((opt, idx) => (\<newline>'' @
     ''                <TouchableOpacity\<newline>'' @
     ''                    key={`${opt.value || idx}-${idx}`}\<newline>'' @
     ''                    style={[styles.chip, value === opt.value && styles.chipSelected]}\<newline>'' @
     ''                    onPress={() => onSelect(opt.value === value ? "" : opt.value)}\<newline>'' @
     ''                >\<newline>'' @
     ''                    <Text style={[styles.chipText, value === opt.value && styles.chipTextSelected]}>{opt.label}</Text>\<newline>'' @
     ''                </TouchableOpacity>\<newline>'' @
     ''            ))}\<newline>'' @
     ''        </ScrollView>\<newline>'' @
     ''    );\<newline>'' @
     ''}\<newline>'' @
     ''\<newline>'' @
     ''// '' @ [CHR 0xE2, CHR 0x94, CHR 0x80, CHR 0xE2, CHR 0x94, CHR 0x80, CHR 0xE2, CHR 0x94, CHR 0x80] @ '' Searchable Dropdown '' @ [CHR 0xE2, CHR 0x94, CHR 0x80, CHR 0xE2, CHR 0x94, CHR 0x80, CHR 0xE2, CHR 0x94, CHR 0x80, CHR 0xE2, CHR 0x94, CHR 0x80, CHR 0xE2, CHR 0x94, CHR 0x80, CHR 0xE2, CHR 0x94, CHR 0x80, CHR 0xE2, CHR 0x94, CHR 0x80, CHR 0xE2, CHR 0x94, CHR 0x80, CHR 0xE2, CHR 0x94, CHR 0x80, CHR 0xE2, CHR 0x94, CHR 0x80, CHR 0xE2, CHR 0x94, CHR 0x80, CHR 0xE2, CHR 0x94, CHR 0x80, CHR 0xE2, CHR 0x94, CHR 0x80, CHR 0xE2, CHR 0x94, CHR 0x80, CHR 0xE2, CHR 0x94, CHR 0x80, CHR 0xE2, CHR 0x94, CHR 0x80, CHR 0xE2, CHR 0x94, CHR 0x80, CHR 0xE2, CHR 0x94, CHR 0x80, CHR 0xE2, CHR 0x94, CHR 0x80, CHR 0xE2, CHR 0x94, CHR 0x80, CHR 0xE2, CHR 0x94, CHR 0x80, CHR 0xE2, CHR 0x94, CHR 0x80, CHR 0xE2, CHR 0x94, CHR 0x80, CHR 0xE2, CHR 0x94, CHR 0x80, CHR 0xE2, CHR 0x94, CHR 0x80, CHR 0xE2, CHR 0x94, CHR 0x80, CHR 0xE2, CHR 0x94, CHR 0x80, CHR 0xE2, CHR 0x94, CHR 0x80, CHR 0xE2, CHR 0x94, CHR 0x80, CHR 0xE2, CHR 0x94, CHR 0x80, CHR 0xE2, CHR 0x94, CHR 0x80, CHR 0xE2, CHR 0x94, CHR 0x80, CHR 0xE2, CHR 0x94, CHR 0x80, CHR 0xE2, CHR 0x94, CHR 0x80, CHR 0xE2, CHR 0x94, CHR 0x80, CHR 0xE2, CHR 0x94, CHR 0x80, CHR 0xE2, CHR 0x94, CHR 0x80, CHR 0xE2, CHR 0x94, CHR 0x80, CHR 0xE2, CHR 0x94, CHR 0x80, CHR 0xE2, CHR 0x94, CHR 0x80, CHR 0xE2, CHR 0x94, CHR 0x80, CHR 0xE2, CHR 0x94, CHR 0x80, CHR 0xE2, CHR 0x94, CHR 0x80, CHR 0xE2, CHR 0x94, CHR 0x80, CHR 0xE2, CHR 0x94, CHR 0x80, CHR 0xE2, CHR 0x94, CHR 0x80, CHR 0xE2, CHR 0x94, CHR 0x80, CHR 0xE2, CHR 0x94, CHR 0x80, CHR 0xE2, CHR 0x94, CHR 0x80, CHR 0xE2, CHR 0x94, CHR 0x80, CHR 0xE2, CHR 0x94, CHR 0x80, CHR 0xE2, CHR 0x94, CHR 0x80, CHR 0xE2, CHR 0x94, CHR 0x80, CHR 0xE2, CHR 0x94, CHR 0x80] @ ''\<newline>'' @
     ''\<newline>'' @
     ''function SearchableDropdown({\<newline>'' @
     ''    visible, onClose, options, onSelect, placeholder\<newline>'' @
     ''}: {\<newline>'' @
     ''    visible: boolean; onClose: () => void; options: { label: string, value: string }[]; onSelect: (v: string) => void; placeholder: string;\<newline>'' @
     ''}) {\<newline>'' @
     ''    const [search, setSearch] = useState("");\<newline>'' @
     ''    const filtered = options.filter(o => o.label.toLowerCase().includes(search.toLowerCase()));\<newline>'' @
     ''\<newline>'' @
     ''    return (\<newline>'' @
     ''        <Modal visible={visible} animationType="slide" transparent={true} onRequestClose={onClose}>\<newline>'' @
     ''            <View style={styles.modalOverlay}>\<newline>'' @
     ''                <View style={styles.modalContent}>\<newline>'' @
     ''                    <View style={styles.modalHeader}>\<newline>'' @
     ''                        <Text style={styles.modalTitle}>{placeholder}</Text>\<newline>'' @
     ''                        <TouchableOpacity onPress={onClose} hitSlop={{ top: 10, bottom: 10, left: 10, right: 10 }}>\<newline>'' @
     ''                            <Ionicons name="close" size={24} color="#64748b" />\<newline>'' @
     ''                        </TouchableOpacity>\<newline>'' @
     ''                    </View>\<newline>'' @
     ''                    <TextInput\<newline>'' @
     ''                        style={styles.modalSearchInput}\<newline>'' @
     ''                        placeholder="Search..."\<newline>'' @
     ''                        value={search}\<newline>'' @
     ''                        onChangeText={setSearch}\<newline>'' @
     ''                        placeholderTextColor="#9ca3af"\<newline>'' @
     ''                    />\<newline>'' @
     ''                    <FlatList\<newline>'' @
     ''                        data={filtered}\<newline>'' @
     ''                        keyExtractor={(item, idx) => `${item.value}-${idx}`}\<newline>'' @
     ''                        renderItem={({ item }) => (\<newline>'' @
     ''                            <TouchableOpacity style={styles.modalListItem} onPress={() => { onSelect(item.value); onClose(); }}>\<newline>'' @
     ''                                <Text style={styles.modalListItemText}>{item.label}</Text>\<newline>'' @
     ''                            </TouchableOpacity>\<newline>'' @
     ''                        )}\<newline>'' @
     ''                        ListEmptyComponent={<Text style={styles.modalEmptyText}>No results found</Text>}\<newline>'' @
     ''                        keyboardShouldPersistTaps="handled"\<newline>'' @
     ''                    />\<newline>'' @
     ''                </View>\<newline>'' @
     ''            </View>\<newline>'' @
     ''        </Modal>\<newline>'' @
     ''    );\<newline>'' @
     ''}\<newline>'' @
     ''\<newline>'' @
     ''// '' @ [CHR 0xE2, CHR 0x94, CHR 0x80, CHR 0xE2, CHR 0x94, CHR 0x80, CHR 0xE2, CHR 0x94, CHR 0x80] @ '' Main Form '' @ [CHR 0xE2, CHR 0x94, CHR 0x80, CHR 0xE2, CHR 0x94, CHR 0x80, CHR 0xE2, CHR 0x94, CHR 0x80, CHR 0xE2, CHR 0x94, CHR 0x80, CHR 0xE2, CHR 0x94, CHR 0x80, CHR 0xE2, CHR 0x94, CHR 0x80, CHR 0xE2, CHR 0x94, CHR 0x80, CHR 0xE2, CHR 0x94, CHR 0x80, CHR 0xE2, CHR 0x94, CHR 0x80, CHR 0xE2, CHR 0x94, CHR 0x80, CHR 0xE2, CHR 0x94, CHR 0x80, CHR 0xE2, CHR 0x94, CHR 0x80, CHR 0xE2, CHR 0x94, CHR 0x80, CHR 0xE2, CHR 0x94, CHR 0x80, CHR 0xE2, CHR 0x94, CHR 0x80, CHR 0xE2, CHR 0x94, CHR 0x80, CHR 0xE2, CHR 0x94, CHR 0x80, CHR 0xE2, CHR 0x94, CHR 0x80, CHR 0xE2, CHR 0x94, CHR 0x80, CHR 0xE2, CHR 0x94, CHR 0x80, CHR 0xE2, CHR 0x94, CHR 0x80, CHR 0xE2, CHR 0x94, CHR 0x80, CHR 0xE2, CHR 0x94, CHR 0x80, CHR 0xE2, CHR 0x94, CHR 0x80, CHR 0xE2, CHR 0x94, CHR 0x80, CHR 0xE2, CHR 0x94, CHR 0x80, CHR 0xE2, CHR 0x94, CHR 0x80, CHR 0xE2, CHR 0x94, CHR 0x80, CHR 0xE2, CHR 0x94, CHR 0x80, CHR 0xE2, CHR 0x94, CHR 0x80, CHR 0xE2, CHR 0x94, CHR 0x80, CHR 0xE2, CHR 0x94, CHR 0x80, CHR 0xE2, CHR 0x94, CHR 0x80, CHR 0xE2, CHR 0x94, CHR 0x80, CHR 0xE2, CHR 0x94, CHR 0x80, CHR 0xE2, CHR 0x94, CHR 0x80, CHR 0xE2, CHR 0x94, CHR 0x80, CHR 0xE2, CHR 0x94, CHR 0x80, CHR 0xE2, CHR 0x94, CHR 0x80, CHR 0xE2, CHR 0x94, CHR 0x80, CHR 0xE2, CHR 0x94, CHR 0x80, CHR 0xE2, CHR 0x94, CHR 0x80, CHR 0xE2, CHR 0x94, CHR 0x80, CHR 0xE2, CHR 0x94, CHR 0x80, CHR 0xE2, CHR 0x94, CHR 0x80, CHR 0xE2, CHR 0x94, CHR 0x80, CHR 0xE2, CHR 0x94, CHR 0x80, CHR 0xE2, CHR 0x94, CHR 0x80, CHR 0xE2, CHR 0x94, CHR 0x80, CHR 0xE2, CHR 0x94, CHR 0x80, CHR 0xE2, CHR 0x94, CHR 0x80, CHR 0xE2, CHR 0x94, CHR 0x80, CHR 0xE2, CHR 0x94, CHR 0x80, CHR 0xE2, CHR 0x94, CHR 0x80, CHR 0xE2, CHR 0x94, CHR 0x80, CHR 0xE2, CHR 0x94, CHR 0x80, CHR 0xE2, CHR 0x94, CHR 0x80, CHR 0xE2, CHR 0x94, CHR 0x80, CHR 0xE2, CHR 0x94, CHR 0x80, CHR 0xE2, CHR 0x94, CHR 0x80, CHR 0xE2, CHR 0x94, CHR 0x80, CHR 0xE2, CHR 0x94, CHR 0x80, CHR 0xE2, CHR 0x94, CHR 0x80, CHR 0xE2, CHR 0x94, CHR 0x80] @ ''\<newline>'' @
     ''\<newline>'' @
     ''interface BuiltupRow {\<newline>'' @
     ''    floor: string;\<newline>'' @
     ''    cluster: string;\<newline>'' @
     ''    length: string;\<newline>'' @
     ''    width: string;\<newline>'' @
     ''    totalArea: string;\<newline>'' @
     ''}\<newline>'' @
     ''\<newline>'' @
     ''interface OwnerLink {\<newline>'' @
     ''    id: string;\<newline>'' @
     ''    name: string;\<newline>'' @
     ''    mobile: string;\<newline>'' @
     ''    role: string;\<newline>'' @
     ''    relationship: string;\<newline>'' @
     ''}\<newline>'' @
     ''\<newline>'' @
     ''interface InventoryForm {\<newline>'' @
     ''    // Basic Unit Details\<newline>'' @
     ''    category: string;\<newline>'' @
     ''    subCategory: string;\<newline>'' @
     ''    unitNo: string;\<newline>'' @
     ''    unitType: string;\<newline>'' @
     ''    projectName: string;\<newline>'' @
     ''    projectId: string;\<newline>'' @
     ''    block: string;\<newline>'' @
     ''    size: string;\<newline>'' @
     ''    direction: string;\<newline>'' @
     ''    facing: string;\<newline>'' @
     ''    roadWidth: string;\<newline>'' @
     ''    ownership: string;\<newline>'' @
     ''\<newline>'' @
     ''    // Builtup Details\<newline>'' @
     ''    builtupDetail: string;\<newline>'' @
     ''    builtupType: string;\<newline>'' @
     ''    builtupDetails: BuiltupRow[];\<newline>'' @
     ''\<newline>'' @
     ''    // Furnishing & Dates\<newline>'' @
     ''    occupationDate: string;\<newline>'' @
     ''    ageOfConstruction: string;\<newline>'' @
     ''    possessionStatus: string;\<newline>'' @
     ''    furnishType: string;\<newline>'' @
     ''    furnishedItems: string;\<newline>'' @
     ''\<newline>'' @
     ''    // Location\<newline>'' @
     ''    locationSearch: string;\<newline>'' @
     ''    address: {\<newline>'' @
     ''        country: string;\<newline>'' @
     ''        state: string;\<newline>'' @
     ''        city: string;\<newline>'' @
     ''        location: string;\<newline>'' @
     ''        tehsil: string;\<newline>'' @
     ''        postOffice: string;\<newline>'' @
     ''        pinCode: string;\<newline>'' @
     ''        hNo: string;\<newline>'' @
     ''        street: string;\<newline>'' @
     ''        area: string;\<newline>'' @
     ''    };\<newline>'' @
     ''\<newline>'' @
     ''    // Owners\<newline>'' @
     ''    owners: OwnerLink[];\<newline>'' @
     ''\<newline>'' @
     ''    // System Assignment\<newline>'' @
     ''    assignedTo: string;\<newline>'' @
     ''    team: string;\<newline>'' @
     ''    status: string;\<newline>'' @
     ''    intent: string;\<newline>'' @
     ''    visibleTo: string;\<newline>'' @
     ''}\<newline>'' @
     ''\<newline>'' @
     ''const INITIAL: InventoryForm = {\<newline>'' @
     ''    category: "Residential", subCategory: "", unitNo: "", unitType: "",\<newline>'' @
     ''    projectName: "", projectId: "", block: "", size: "",\<newline>'' @
     ''    direction: "", facing: "", roadWidth: "", ownership: "",\<newline>'' @
     ''    builtupDetail: "", builtupType: "",\<newline>'' @
     ''    builtupDetails: [{ floor: "Ground Floor", cluster: "", length: "", width: "", totalArea: "" }],\<newline>'' @
     ''    occupationDate: "", ageOfConstruction: "", possessionStatus: "", furnishType: "", furnishedItems: "",\<newline>'' @
     ''    locationSearch: "",\<newline>'' @
     ''    address: { country: "", state: "", city: "", location: "", tehsil: "", postOffice: "", pinCode: "", hNo: "", street: "", area: "" },\<newline>'' @
     ''    owners: [],\<newline>'' @
     ''    assignedTo: "", team: "", status: "Active", intent: "Sell", visibleTo: "Everyone",\<newline>'' @
     ''};\<newline>'' @
     ''\<newline>'' @
     ''export default function AddInventoryScreen() {\<newline>'' @
     ''    const router = useRouter();\<newline>'' @
     ''    const [form, setForm] = useState<InventoryForm>(INITIAL);\<newline>'' @
     ''    const [saving, setSaving] = useState(false);\<newline>'' @
     ''    const [projectModalVisible, setProjectModalVisible] = useState(false);\<newline>'' @
     ''\<newline>'' @
     ''    // Master Data States\<newline>'' @
     ''    const [propertyConfig, setPropertyConfig] = useState<any>({});\<newline>'' @
     ''    const [masterFields, setMasterFields] = useState<any>({});\<newline>'' @
     ''    const [projects, setProjects] = useState<any[]>([]);\<newline>'' @
     ''    const [sizes, setSizes] = useState<any[]>([]);\<newline>'' @
     ''\<newline>'' @
     ''    const [facingLookups, setFacingLookups] = useState<any[]>([]);\<newline>'' @
     ''\<newline>'' @
     ''    const [teams, setTeams] = useState<any[]>([]);\<newline>'' @
     ''    const [users, setUsers] = useState<any[]>([]);\<newline>'' @
     ''\<newline>'' @
     ''    // Owner Search State\<newline>'' @
     ''    const [ownerSearch, setOwnerSearch] = useState("");\<newline>'' @
     ''    const [searchResults, setSearchResults] = useState<any[]>([]);\<newline>'' @
     ''    const [searching, setSearching] = useState(false);\<newline>'' @
     ''    const [selectedOwner, setSelectedOwner] = useState<any>(null);\<newline>'' @
     ''    const [linkData, setLinkData] = useState({ role: "Property Owner", relationship: "" });\<newline>'' @
     ''\<newline>'' @
     ''    // Location Lookup States\<newline>'' @
     ''    const [countries, setCountries] = useState<any[]>([]);\<newline>'' @
     ''    const [states, setStates] = useState<any[]>([]);\<newline>'' @
     ''    const [cities, setCities] = useState<any[]>([]);\<newline>'' @
     ''    const [locations, setLocations] = useState<any[]>([]);\<newline>'' @
     ''    const [tehsils, setTehsils] = useState<any[]>([]);\<newline>'' @
     ''    const [postOffices, setPostOffices] = useState<any[]>([]);\<newline>'' @
     ''\<newline>'' @
     ''    const [activeLocDropdown, setActiveLocDropdown] = useState<string | null>(null);\<newline>'' @
     ''    const [builtupDetailLookups, setBuiltupDetailLookups] = useState<any[]>([]);\<newline>'' @
     ''    const [btLookups, setBtLookups] = useState<any[]>([]);\<newline>'' @
     ''\<newline>'' @
     ''    const set = (key: keyof InventoryForm) => (val: any) =>\<newline>'' @
     ''        setForm((f) => ({ ...f, [key]: val }));\<newline>'' @
     ''\<newline>'' @
     ''    const setAddress = (key: keyof InventoryForm['address']) => (val: string) => {\<newline>'' @
     ''        setForm(f => {\<newline>'' @
     ''            const newAddr = { ...f.address, [key]: val };\<newline>'' @
     ''            // Cascading resets\<newline>'' @
     ''            if (key === 'country') { newAddr.state = ""; newAddr.city = ""; newAddr.location = ""; newAddr.tehsil = ""; newAddr.postOffice = ""; newAddr.pinCode = ""; }\<newline>'' @
     ''            if (key === 'state') { newAddr.city = ""; newAddr.location = ""; newAddr.tehsil = ""; newAddr.postOffice = ""; newAddr.pinCode = ""; }\<newline>'' @
     ''            if (key === 'city') { newAddr.location = ""; newAddr.tehsil = ""; newAddr.postOffice = ""; newAddr.pinCode = ""; }\<newline>'' @
     ''            if (key === 'location') { newAddr.postOffice = ""; newAddr.pinCode = ""; }\<newline>'' @
     ''            return { ...f, address: newAddr };\<newline>'' @
     ''        });\<newline>'' @
     ''    };\<newline>'' @
     ''\<newline>'' @
     ''    // '' @ [CHR 0xE2, CHR 0x94, CHR 0x80, CHR 0xE2, CHR 0x94, CHR 0x80, CHR 0xE2, CHR 0x94, CHR 0x80] @ '' Location Data Fetching Effects '' @ [CHR 0xE2, CHR 0x94, CHR 0x80, CHR 0xE2, CHR 0x94, CHR 0x80, CHR 0xE2, CHR 0x94, CHR 0x80, CHR 0xE2, CHR 0x94, CHR 0x80, CHR 0xE2, CHR 0x94, CHR 0x80, CHR 0xE2, CHR 0x94, CHR 0x80, CHR 0xE2, CHR 0x94, CHR 0x80, CHR 0xE2, CHR 0x94, CHR 0x80, CHR 0xE2, CHR 0x94, CHR 0x80, CHR 0xE2, CHR 0x94, CHR 0x80, CHR 0xE2, CHR 0x94, CHR 0x80, CHR 0xE2, CHR 0x94, CHR 0x80, CHR 0xE2, CHR 0x94, CHR 0x80, CHR 0xE2, CHR 0x94, CHR 0x80, CHR 0xE2, CHR 0x94, CHR 0x80, CHR 0xE2, CHR 0x94, CHR 0x80, CHR 0xE2, CHR 0x94, CHR 0x80, CHR 0xE2, CHR 0x94, CHR 0x80, CHR 0xE2, CHR 0x94, CHR 0x80, CHR 0xE2, CHR 0x94, CHR 0x80, CHR 0xE2, CHR 0x94, CHR 0x80, CHR 0xE2, CHR 0x94, CHR 0x80, CHR 0xE2, CHR 0x94, CHR 0x80, CHR 0xE2, CHR 0x94, CHR 0x80, CHR 0xE2, CHR 0x94, CHR 0x80, CHR 0xE2, CHR 0x94, CHR 0x80, CHR 0xE2, CHR 0x94, CHR 0x80, CHR 0xE2, CHR 0x94, CHR 0x80, CHR 0xE2, CHR 0x94, CHR 0x80, CHR 0xE2, CHR 0x94, CHR 0x80, CHR 0xE2, CHR 0x94, CHR 0x80, CHR 0xE2, CHR 0x94, CHR 0x80, CHR 0xE2, CHR 0x94, CHR 0x80, CHR 0xE2, CHR 0x94, CHR 0x80, CHR 0xE2, CHR 0x94, CHR 0x80, CHR 0xE2, CHR 0x94, CHR 0x80, CHR 0xE2, CHR 0x94, CHR 0x80, CHR 0xE2, CHR 0x94, CHR 0x80, CHR 0xE2, CHR 0x94, CHR 0x80, CHR 0xE2, CHR 0x94, CHR 0x80, CHR 0xE2, CHR 0x94, CHR 0x80, CHR 0xE2, CHR 0x94, CHR 0x80] @ ''\<newline>'' @
     ''    const fetchLocLookup = async (lookup_type: string, parent_id: string | null = null) => {\<newline>'' @
     ''        try {\<newline>'' @
     ''            const params: any = { lookup_type, limit: 1000 };\<newline>'' @
     ''            if (parent_id) params.parent_lookup_id = parent_id;\<newline>'' @
     ''\<newline>'' @
     ''            const res = await api.get("/lookups", { params });\<newline>'' @
     ''            return res.data?.data || [];\<newline>'' @
     ''        } catch (error) {\<newline>'' @
     ''            console.error(`Fetch error for ${lookup_type}:`, error);\<newline>'' @
     ''            return [];\<newline>'' @
     ''        }\<newline>'' @
     ''    };\<newline>'' @
     ''\<newline>'' @
     ''    useEffect(() => { fetchLocLookup("Country").then(setCountries); }, []);\<newline>'' @
     ''\<newline>'' @
     ''    useEffect(() => {\<newline>'' @
     ''        if (!form.address.country) { setStates([]); return; }\<newline>'' @
     ''        fetchLocLookup("State", form.address.country).then(setStates);\<newline>'' @
     ''    }, [form.address.country]);\<newline>'' @
     ''\<newline>'' @
     ''    useEffect(() => {\<newline>'' @
     ''        if (!form.address.state) { setCities([]); return; }\<newline>'' @
     ''        fetchLocLookup("City", form.address.state).then(setCities);\<newline>'' @
     ''    }, [form.address.state]);\<newline>'' @
     ''\<newline>'' @
     ''    useEffect(() => {\<newline>'' @
     ''        if (!form.address.city) { setLocations([]); setTehsils([]); return; }\<newline>'' @
     ''        fetchLocLookup("Location", form.address.city).then(setLocations);\<newline>'' @
     ''        fetchLocLookup("Tehsil", form.address.city).then(setTehsils);\<newline>'' @
     ''    }, [form.address.city]);\<newline>'' @
     ''\<newline>'' @
     ''    useEffect(() => {\<newline>'' @
     ''        if (!form.address.location) { setPostOffices([]); return; }\<newline>'' @
     ''        fetchLocLookup("PostOffice", form.address.location).then(setPostOffices);\<newline>'' @
     ''    }, [form.address.location]);\<newline>'' @
     ''\<newline>'' @
     ''    useEffect(() => {\<newline>'' @
     ''        if (!form.address.postOffice) return;\<newline>'' @
     ''        fetchLocLookup("Pincode", form.address.postOffice).then(data => {\<newline>'' @
     ''            if (data.length === 1) setAddress('pinCode')(data[0].lookup_value);\<newline>'' @
     ''        });\<newline>'' @
     ''    }, [form.address.postOffice]);\<newline>'' @
     ''\<newline>'' @
     ''    // '' @ [CHR 0xE2, CHR 0x94, CHR 0x80, CHR 0xE2, CHR 0x94, CHR 0x80, CHR 0xE2, CHR 0x94, CHR 0x80] @ '' Builtup Detail/Type Fetching effects '' @ [CHR 0xE2, CHR 0x94, CHR 0x80, CHR 0xE2, CHR 0x94, CHR 0x80, CHR 0xE2, CHR 0x94, CHR 0x80, CHR 0xE2, CHR 0x94, CHR 0x80, CHR 0xE2, CHR 0x94, CHR 0x80, CHR 0xE2, CHR 0x94, CHR 0x80, CHR 0xE2, CHR 0x94, CHR 0x80, CHR 0xE2, CHR 0x94, CHR 0x80, CHR 0xE2, CHR 0x94, CHR 0x80, CHR 0xE2, CHR 0x94, CHR 0x80, CHR 0xE2, CHR 0x94, CHR 0x80, CHR 0xE2, CHR 0x94, CHR 0x80, CHR 0xE2, CHR 0x94, CHR 0x80, CHR 0xE2, CHR 0x94, CHR 0x80, CHR 0xE2, CHR 0x94, CHR 0x80, CHR 0xE2, CHR 0x94, CHR 0x80, CHR 0xE2, CHR 0x94, CHR 0x80, CHR 0xE2, CHR 0x94, CHR 0x80, CHR 0xE2, CHR 0x94, CHR 0x80, CHR 0xE2, CHR 0x94, CHR 0x80, CHR 0xE2, CHR 0x94, CHR 0x80, CHR 0xE2, CHR 0x94, CHR 0x80, CHR 0xE2, CHR 0x94, CHR 0x80, CHR 0xE2, CHR 0x94, CHR 0x80, CHR 0xE2, CHR 0x94, CHR 0x80, CHR 0xE2, CHR 0x94, CHR 0x80, CHR 0xE2, CHR 0x94, CHR 0x80, CHR 0xE2, CHR 0x94, CHR 0x80, CHR 0xE2, CHR 0x94, CHR 0x80, CHR 0xE2, CHR 0x94, CHR 0x80, CHR 0xE2, CHR 0x94, CHR 0x80, CHR 0xE2, CHR 0x94, CHR 0x80, CHR 0xE2, CHR 0x94, CHR 0x80, CHR 0xE2, CHR 0x94, CHR 0x80, CHR 0xE2, CHR 0x94, CHR 0x80] @ ''\<newline>'' @
     ''    useEffect(() => {\<newline>'' @
     ''        const fetchBuiltupDetail = async () => {\<newline>'' @
     ''            if (!form.subCategory) { setBuiltupDetailLookups([]); return; }\<newline>'' @
     ''            try {\<newline>'' @
     ''                const scRes = await api.get("/lookups", { params: { lookup_type: 'SubCategory', lookup_value: form.subCategory } });\<newline>'' @
     ''                const scId = scRes.data?.data?.[0]?._id;\<newline>'' @
     ''                if (!scId) { setBuiltupDetailLookups([]); return; }\<newline>'' @
     ''                const ptRes = await api.get("/lookups", { params: { lookup_type: 'PropertyType', parent_lookup_id: scId } });\<newline>'' @
     ''                setBuiltupDetailLookups((ptRes.data?.data || []).map((pt: any) => ({ label: pt.lookup_value, value: pt.lookup_value, _id: pt._id })));\<newline>'' @
     ''            } catch (e) { console.error("Builtup Detail fetch failed", e); }\<newline>'' @
     ''        };\<newline>'' @
     ''        fetchBuiltupDetail();\<newline>'' @
     ''    }, [form.subCategory]);\<newline>'' @
     ''\<newline>'' @
     ''    useEffect(() => {\<newline>'' @
     ''        const fetchBT = async () => {\<newline>'' @
     ''            if (!form.builtupDetail) { setBtLookups([]); return; }\<newline>'' @
     ''            try {\<newline>'' @
     ''                const pt = builtupDetailLookups.find(opt => opt.value === form.builtupDetail);\<newline>'' @
     ''                if (!pt?._id) { setBtLookups([]); return; }\<newline>'' @
     ''                const btRes = await api.get("/lookups", { params: { lookup_type: 'BuiltupType', parent_lookup_id: pt._id, limit: 1000 } });\<newline>'' @
     ''                setBtLookups((btRes.data?.data || []).map((bt: any) => ({ label: bt.lookup_value, value: bt.lookup_value })));\<newline>'' @
     ''            } catch (e) { console.error("BT fetch failed", e); }\<newline>'' @
     ''        };\<newline>'' @
     ''        fetchBT();\<newline>'' @
     ''    }, [form.builtupDetail, builtupDetailLookups]);\<newline>'' @
     ''\<newline>'' @
     ''    useEffect(() => {\<newline>'' @
     ''        const fetchSystemData = async () => {\<newline>'' @
     ''            try {\<newline>'' @
     ''                const [pc, mf, pj, sz, tm, ur] = await Promise.all([\<newline>'' @
     ''                    api.get("/system-settings/property_config"),\<newline>'' @
     ''                    api.get("/system-settings/master_fields"),\<newline>'' @
     ''                    api.get("/projects?limit=100"),\<newline>'' @
     ''                    api.get("/projects/sizes/all?limit=1000"), // Assuming this endpoint exists based on AddSizeModal\<newline>'' @
     ''                    api.get("/lookups?lookup_type=Team&limit=100"),\<newline>'' @
     ''                    api.get("/users?limit=1000"),\<newline>'' @
     ''                ]);\<newline>'' @
     ''                setPropertyConfig(pc.data?.data || {});\<newline>'' @
     ''                setMasterFields(mf.data?.data || {});\<newline>'' @
     ''                setProjects(pj.data?.data || []);\<newline>'' @
     ''                setSizes(sz.data?.data || []);\<newline>'' @
     ''                setTeams((tm.data?.data || []).map((t: any) => ({ label: t.lookup_value, value: t._id })));\<newline>'' @
     ''                setUsers((ur.data?.records || ur.data?.data || []).map((u: any) => ({ label: u.name || u.fullName, value: u._id, team: u.team })));\<newline>'' @
     ''            } catch (e) { console.error("System data fetch failed", e); }\<newline>'' @
     ''        };\<newline>'' @
     ''        fetchSystemData();\<newline>'' @
     ''    }, []);\<newline>'' @
     ''\<newline>'' @
     ''    const handleSave = async () => {\<newline>'' @
     ''        if (!form.projectName || !form.unitNo || !form.subCategory) {\<newline>'' @
     ''            Alert.alert("Missing Fields", "Please fill in Project, Unit No, and Sub Category.");\<newline>'' @
     ''            return;\<newline>'' @
     ''        }\<newline>'' @
     ''        setSaving(true);\<newline>'' @
     ''        try {\<newline>'' @
     ''            // Helper to get ID for lookup values\<newline>'' @
     ''            const findId = (items: any[], val: string) => items.find(i => i.lookup_value === val)?._id || val;\<newline>'' @
     ''\<newline>'' @
     ''            const payload = {\<newline>'' @
     ''                ...form,\<newline>'' @
     ''                category: findId(masterFields.categories || [], form.category),\<newline>'' @
     ''                subCategory: findId(masterFields.subCategories || [], form.subCategory),\<newline>'' @
     ''                // etc. (Add all mapping as per web)\<newline>'' @
     ''            };\<newline>'' @
     ''\<newline>'' @
     ''            const res = await api.post("/inventory", payload);\<newline>'' @
     ''            if (res.data?.success) {\<newline>'' @
     ''                Alert.alert("Success", "Inventory saved successfully.");\<newline>'' @
     ''                router.replace("/(tabs)/inventory");\<newline>'' @
     ''            } else {\<newline>'' @
     ''                throw new Error(res.data?.message || "Failed to save");\<newline>'' @
     ''            }\<newline>'' @
     ''        } catch (e: any) {\<newline>'' @
     ''            Alert.alert("Error", e.message || "Failed to save inventory.");\<newline>'' @
     ''        } finally {\<newline>'' @
     ''            setSaving(false);\<newline>'' @
     ''        }\<newline>'' @
     ''    };\<newline>'' @
     ''\<newline>'' @
     ''    return (\<newline>'' @
     ''        <SafeAreaView style={styles.container}>\<newline>'' @
     ''            <KeyboardAvoidingView behavior={Platform.OS === 'ios' ? 'padding' : undefined} style={{ flex: 1 }}>\<newline>'' @
     ''                <View style={styles.header}>\<newline>'' @
     ''                    <TouchableOpacity\<newline>'' @
     ''                        onPress={() => {\<newline>'' @
     ''                            const isDirty = JSON.stringify(form) !== JSON.stringify(INITIAL);\<newline>'' @
     ''                            if (isDirty) {\<newline>'' @
     ''                                Alert.alert("Discard Changes?", "You have unsaved changes. Are you sure you want to go back?", [\<newline>'' @
     ''                                    { text: "Keep Editing", style: "cancel" },\<newline>'' @
     ''                                    { text: "Discard", style: "destructive", onPress: () => router.back() }\<newline>'' @
     ''                                ]);\<newline>'' @
     ''                            } else {\<newline>'' @
     ''                                router.back();\<newline>'' @
     ''                            }\<newline>'' @
     ''                        }}\<newline>'' @
     ''                    >\<newline>'' @
     ''                        <Ionicons name="arrow-back" size={24} color="#1E293B" />\<newline>'' @
     ''                    </TouchableOpacity>\<newline>'' @
     ''                    <Text style={styles.headerTitle}>Add Inventory</Text>\<newline>'' @
     ''                    <TouchableOpacity onPress={handleSave} disabled={saving}>\<newline>'' @
     ''                        {saving ? <ActivityIndicator size="small" color="#2563EB" /> : <Text style={styles.saveHeader}>Save</Text>}\<newline>'' @
     ''                    </TouchableOpacity>\<newline>'' @
     ''                </View>\<newline>'' @
     ''\<newline>'' @
     ''                <ScrollView style={styles.content} showsVerticalScrollIndicator={false}>\<newline>'' @
     ''                    <SectionHeader title="Basic Unit Details" icon="'' @ [CHR 0xF0, CHR 0x9F, CHR 0x8F, CHR 0xA2] @ ''" />\<newline>'' @
     ''                    <View style={styles.card}>\<newline>'' @
     ''                        <Field label="Category" required>\<newline>'' @
     ''                            <SelectButton value={form.category} placeholder="Select Category"\<newline>'' @
     ''                                options={['Residential', 'Commercial', 'Industrial', 'Agricultural', 'Institutional'].map(c => ({ label: c, value: c }))}\<newline>'' @
     ''                                onSelect={(val) => setForm(f => ({ ...f, category: val, subCategory: "", builtupDetail: "", builtupType: "" }))} />\<newline>'' @
     ''                        </Field>\<newline>'' @
     ''\<newline>'' @
     ''                        <Field label="Sub Category" required>\<newline>'' @
     ''                            <SelectButton value={form.subCategory} placeholder="Select Category first"\<newline>'' @
     ''                                options={(propertyConfig[form.category]?.subCategories || []).map((sc: any) => ({ label: sc.name, value: sc.name }))}\<newline>'' @
     ''                                onSelect={(val) => setForm(f => ({ ...f, subCategory: val, builtupDetail: "", builtupType: "" }))} />\<newline>'' @
     ''                        </Field>\<newline>'' @
     ''\<newline>'' @
     ''                        <Field label="Project Name" required>\<newline>'' @
     ''                            <TouchableOpacity style={styles.selector} onPress={() => setProjectModalVisible(true)}>\<newline>'' @
     ''                                <Text style={[styles.selectorText, !form.projectName && { color: "#9CA3AF" }]}>\<newline>'' @
     ''                                    {form.projectName || "Select Project"}\<newline>'' @
     ''                                </Text>\<newline>'' @
     ''                                <Ionicons name="chevron-down" size={20} color="#64748B" />\<newline>'' @
     ''                            </TouchableOpacity>\<newline>'' @
     ''                        </Field>\<newline>'' @
     ''\<newline>'' @
     ''                        <Field label="Block" required>\<newline>'' @
     ''                            <SelectButton value={form.block} placeholder="Select Project first"\<newline>'' @
     ''                                options={(projects.find(p => p.name === form.projectName)?.blocks || []).map((b: any) => ({ label: typeof b === 'string' ? b : b.name, value: typeof b === 'string' ? b : b.name }))}\<newline>'' @
     ''                                onSelect={set("block")} />\<newline>'' @
     ''                        </Field>\<newline>'' @
     ''\<newline>'' @
     ''                        <Field label="Unit No." required>\<newline>'' @
     ''                            <Input value={form.unitNo} onChangeText={set("unitNo")} placeholder="e.g. 101" />\<newline>'' @
     ''                        </Field>\<newline>'' @
     ''                    </View>\<newline>'' @
     ''\<newline>'' @
     ''                    <SectionHeader title="Builtup Details" icon="'' @ [CHR 0xF0, CHR 0x9F, CHR 0x93, CHR 0x90] @ ''" />\<newline>'' @
     ''                    <View style={styles.card}>\<newline>'' @
     ''                        <Field label="Built-up Detail" required>\<newline>'' @
     ''                            <SelectButton value={form.builtupDetail} placeholder="Select Sub Category first" options={builtupDetailLookups}\<newline>'' @
     ''                                onSelect={(val) => setForm(f => ({ ...f, builtupDetail: val, builtupType: "" }))} />\<newline>'' @
     ''                        </Field>\<newline>'' @
     ''\<newline>'' @
     ''                        <Field label="Built-up Type">\<newline>'' @
     ''                            <SelectButton value={form.builtupType} placeholder="Select Built-up Detail first" options={btLookups} onSelect={set("builtupType")} />\<newline>'' @
     ''                        </Field>\<newline>'' @
     ''                    </View>\<newline>'' @
     ''\<newline>'' @
     ''                    {/* Additional sections would go here... */}\<newline>'' @
     ''\<newline>'' @
     ''                    <View style={styles.footer}>\<newline>'' @
     ''                        <TouchableOpacity style={styles.saveBtn} onPress={handleSave} disabled={saving}>\<newline>'' @
     ''                            {saving ? <ActivityIndicator color="#fff" /> : <Text style={styles.saveBtnText}>Save Inventory</Text>}\<newline>'' @
     ''                        </TouchableOpacity>\<newline>'' @
     ''                    </View>\<newline>'' @
     ''                </ScrollView>\<newline>'' @
     ''\<newline>'' @
     ''                <SearchableDropdown\<newline>'' @
     ''                    visible={projectModalVisible}\<newline>'' @
     ''                    onClose={() => setProjectModalVisible(false)}\<newline>'' @
     ''                    options={projects.map(p => ({ label: p.name, value: p.name }))}\<newline>'' @
     ''                    placeholder="Search Project"\<newline>'' @
     ''                    onSelect={(val) => setForm(f => ({ ...f, projectName: val, projectId: projects.find(p => p.name === val)?._id || "", block: "", size: "" }))}\<newline>'' @
     ''                />\<newline>'' @
     ''            </KeyboardAvoidingView>\<newline>'' @
     ''        </SafeAreaView>\<newline>'' @
     ''    );\<newline>'' @
     ''}\<newline>'' @
     ''\<newline>'' @
     ''const styles = StyleSheet.create({\<newline>'' @
     ''    container: { flex: 1, backgroundColor: "#F8FAFC" },\<newline>'' @
     ''    header: { flexDirection: "row", alignItems: "center", justifyContent: "space-between", padding: 16, backgroundColor: "#fff", borderBottomWidth: 1, borderBottomColor: "#E2E8F0" },\<newline>'' @
     ''    headerTitle: { fontSize: 18, fontWeight: "700", color: "#1E293B" },\<newline>'' @
     ''    saveHeader: { fontSize: 16, fontWeight: "600", color: "#2563EB" },\<newline>'' @
     ''    content: { flex: 1, padding: 16 },\<newline>'' @
     ''    sectionHeader: { flexDirection: "row", alignItems: "center", marginTop: 24, marginBottom: 12 },\<newline>'' @
     ''    sectionIcon: { fontSize: 20, marginRight: 8 },\<newline>'' @
     ''    sectionTitle: { fontSize: 16, fontWeight: "700", color: "#1E293B" },\<newline>'' @
     ''    card: { backgroundColor: "#fff", borderRadius: 12, padding: 16, borderWidth: 1, borderColor: "#E2E8F0" },\<newline>'' @
     ''    field: { marginBottom: 16 },\<newline>'' @
     ''    fieldLabel: { fontSize: 14, fontWeight: "600", color: "#475569", marginBottom: 8 },\<newline>'' @
     ''    required: { color: "#EF4444" },\<newline>'' @
     ''    input: { height: 44, borderWidth: 1, borderColor: "#E2E8F0", borderRadius: 8, paddingHorizontal: 12, fontSize: 15, color: "#1E293B" },\<newline>'' @
     ''    selector: { height: 44, borderWidth: 1, borderColor: "#E2E8F0", borderRadius: 8, paddingHorizontal: 12, flexDirection: "row", alignItems: "center", justifyContent: "space-between" },\<newline>'' @
     ''    selectorText: { fontSize: 15, color: "#1E293B" },\<newline>'' @
     ''    chipRow: { flexDirection: "row" },\<newline>'' @
     ''    chip: { paddingHorizontal: 16, paddingVertical: 8, borderRadius: 20, backgroundColor: "#F1F5F9", marginRight: 8, marginBottom: 8, borderWidth: 1, borderColor: "#E2E8F0" },\<newline>'' @
     ''    chipSelected: { backgroundColor: "#EFF6FF", borderColor: "#3B82F6" },\<newline>'' @
     ''    chipText: { fontSize: 13, fontWeight: "500", color: "#64748B" },\<newline>'' @
     ''    chipTextSelected: { color: "#2563EB" },\<newline>'' @
     ''    footer: { marginTop: 32, marginBottom: 64 },\<newline>'' @
     ''    saveBtn: { backgroundColor: "#2563EB", height: 50, borderRadius: 12, justifyContent: "center", alignItems: "center" },\<newline>'' @
     ''    saveBtnText: { color: "#fff", fontSize: 16, fontWeight: "700" },\<newline>'' @
     ''    modalOverlay: { flex: 1, backgroundColor: "rgba(0,0,0,0.5)", justifyContent: "flex-end" },\<newline>'' @
     ''    modalContent: { backgroundColor: "#fff", borderTopLeftRadius: 20, borderTopRightRadius: 20, height: "80%", padding: 20 },\<newline>'' @
     ''    modalHeader: { flexDirection: "row", alignItems: "center", justifyContent: "space-between", marginBottom: 20 },\<newline>'' @
     ''    modalTitle: { fontSize: 18, fontWeight: "700", color: "#1E293B" },\<newline>'' @
     ''    modalSearchInput: { height: 44, backgroundColor: "#F1F5F9", borderRadius: 10, paddingHorizontal: 16, marginBottom: 16 },\<newline>'' @
     ''    modalListItem: { paddingVertical: 14, borderBottomWidth: 1, borderBottomColor: "#F1F5F9" },\<newline>'' @
     ''    modalListItemText: { fontSize: 16, color: "#1E293B" },\<newline>'' @
     ''    modalEmptyText: { textAlign: "center", color: "#64748B", marginTop: 40 },\<newline>'' @
     ''});\<newline>'' @
     ''"""\<newline>'' @
     ''\<newline>'' @
     ''with open(filepath, "w") as f:\<newline>'' @
     ''    f.write(code)\<newline>'' @
     ''print("Successfully reconstructed the file.")\<newline>''\<close>

section \<open>reconstruct_inventory.py\<close>

text \<open>
  The script opens the file for writing, writes the literal \<^verbatim>\<open>code\<close> and ends; it
  never reads the file and has no \<^verbatim>\<open>print\<close> statement of its own.
\<close>

definition reconstruct_inventory :: "world \<Rightarrow> error option \<times> world" where
  "reconstruct_inventory w =
     (case write_file code w of Inl e \<Rightarrow> (Some e, w) | Inr w1 \<Rightarrow> (None, w1))"

section \<open>Sample lines and worlds\<close>

text \<open>
  Lines of the target file, as they stand there: the marker line, the opening line of an
  effect, the line that opens \<^verbatim>\<open>fetchSystemData\<close>, and two lines of no interest to
  the scan.
\<close>

definition marker_line :: string where
  "marker_line = ''    '' @ start_marker @ ''\<newline>''"

definition effect_line :: string where
  "effect_line = ''    useEffect(() => {\<newline>''"

definition system_line :: string where
  "system_line = ''        const fetchSystemData = async () => {\<newline>''"

definition call_line :: string where
  "call_line = ''        fetchBT();\<newline>''"

definition close_line :: string where
  "close_line = ''    }, []);\<newline>''"

text \<open>A world whose file holds \<open>txt\<close> and can be written, before anything is printed.\<close>

definition fresh :: "string \<Rightarrow> world" where
  "fresh txt = \<lparr>content = Some txt, writable = True, stdout = [], writes = 0\<rparr>"

text \<open>
  A line as \<^const>\<open>readlines\<close> yields it from a text without carriage returns: some
  characters other than line feed, then one line feed.
\<close>

fun proper_line :: "string \<Rightarrow> bool" where
  "proper_line [] = False"
| "proper_line [c] = (c = LF)"
| "proper_line (c # d # ds) = (c \<noteq> LF \<and> c \<noteq> CR \<and> proper_line (d # ds))"


text \<open>The payload \<^const>\<open>new_code\<close>, line by line.\<close>

definition new_code_lines :: "string list" where
  \<open>new_code_lines =
    [''    useEffect(() => {\<newline>'',
     ''        const fetchBuiltupDetail = async () => {\<newline>'',
     ''            if (!form.subCategory) { setBuiltupDetailLookups([]); return; }\<newline>'',
     ''            try {\<newline>'',
     ''                const scRes = await api.get("/lookups", { params: { lookup_type: 'SubCategory', lookup_value: form.subCategory } });\<newline>'',
     ''                const scId = scRes.data?.data?.[0]?._id;\<newline>'',
     ''                if (!scId) { setBuiltupDetailLookups([]); return; }\<newline>'',
     ''                const ptRes = await api.get("/lookups", { params: { lookup_type: 'PropertyType', parent_lookup_id: scId } });\<newline>'',
     ''                setBuiltupDetailLookups((ptRes.data?.data || []).map((pt: any) => ({ label: pt.lookup_value, value: pt.lookup_value, _id: pt._id })));\<newline>'',
     ''            } catch (e) { console.error("Builtup Detail fetch failed", e); }\<newline>'',
     ''        };\<newline>'',
     ''        fetchBuiltupDetail();\<newline>'',
     ''    }, [form.subCategory]);\<newline>'',
     ''\<newline>'',
     ''    useEffect(() => {\<newline>'',
     ''        const fetchBT = async () => {\<newline>'',
     ''            if (!form.builtupDetail) { setBtLookups([]); return; }\<newline>'',
     ''            try {\<newline>'',
     ''                const pt = builtupDetailLookups.find(opt => opt.value === form.builtupDetail);\<newline>'',
     ''                if (!pt?._id) { setBtLookups([]); return; }\<newline>'',
     ''                const btRes = await api.get("/lookups", { params: { lookup_type: 'BuiltupType', parent_lookup_id: pt._id, limit: 1000 } });\<newline>'',
     ''                setBtLookups((btRes.data?.data || []).map((bt: any) => ({ label: bt.lookup_value, value: bt.lookup_value })));\<newline>'',
     ''            } catch (e) { console.error("BT fetch failed", e); }\<newline>'',
     ''        };\<newline>'',
     ''        fetchBT();\<newline>'',
     ''    }, [form.builtupDetail, builtupDetailLookups]);\<newline>'',
     ''\<newline>'']\<close>

text \<open>Sample texts of the target file.\<close>

definition splice_doc :: string where
  "splice_doc = close_line @ marker_line @ call_line @ effect_line @ system_line"

definition plain_doc :: string where
  "plain_doc = close_line @ call_line @ effect_line @ system_line"

definition twice_doc :: string where
  "twice_doc = marker_line @ close_line @ marker_line"

definition open_doc :: string where
  "open_doc = close_line @ marker_line @ effect_line @ call_line"

definition cut_doc :: string where
  "cut_doc = marker_line @ effect_line"

definition idem_doc :: string where
  "idem_doc = marker_line @ effect_line @ system_line"

definition shadow_doc :: string where
  "shadow_doc = marker_line @ effect_line @ call_line @ effect_line @ system_line"

definition unshadowed_doc :: string where
  "unshadowed_doc = marker_line @ close_line @ call_line @ effect_line @ system_line"

definition again_doc :: string where
  "again_doc = marker_line @ effect_line @ system_line @ marker_line @ close_line"

text \<open>Bytes that do not decode: \<open>E9\<close> is a lead byte and a line feed follows it.\<close>

definition latin_doc :: string where
  "latin_doc = ''caf'' @ [CHR 0xE9] @ ''\<newline>''"

section \<open>Substring search and list lookup\<close>

lemma str_in_sublist: "str_in sub s = sublist sub s"
  by (induction s) (simp_all add: sublist_Cons_right)

lemma str_in_mid: "str_in sub (a @ sub @ b)"
  by (simp add: str_in_sublist)

lemma str_in_missing_char: "c \<in> set sub \<Longrightarrow> c \<notin> set s \<Longrightarrow> \<not> str_in sub s"
  using set_mono_sublist [of sub s] by (auto simp: str_in_sublist)

lemma list_index_first:
  "x \<in> set xs \<Longrightarrow> \<exists>i. list_index (xs @ ys) x = Inr i \<and> i < length xs"
proof (induction xs)
  case Nil
  then show ?case by simp
next
  case (Cons y xs)
  show ?case
  proof (cases "y = x")
    case True
    then show ?thesis by simp
  next
    case False
    with Cons.prems have "x \<in> set xs" by simp
    from Cons.IH [OF this] obtain i where "list_index (xs @ ys) x = Inr i" "i < length xs"
      by blast
    with False show ?thesis by simp
  qed
qed


section \<open>Decoding\<close>

lemma ascii_byte: "\<not> digit7 c \<Longrightarrow> (of_char c :: nat) < 0x80"
  by (cases c) (simp add: of_bool_def)

lemma utf8_valid_ascii: "list_all (\<lambda>c. \<not> digit7 c) s \<Longrightarrow> utf8_valid s"
  by (induction s) (simp_all add: ascii_byte)

lemma utf8_valid_append: "utf8_valid a \<Longrightarrow> utf8_valid (a @ x) = utf8_valid x"
proof (induction a rule: utf8_valid.induct)
  case 1
  then show ?case by simp
next
  case (2 b bs)
  let ?n = "of_char b :: nat"
  consider (one) "?n < 0x80"
    | (two) "\<not> ?n < 0x80" "0xC2 \<le> ?n \<and> ?n \<le> 0xDF"
    | (three) "\<not> ?n < 0x80" "\<not> (0xC2 \<le> ?n \<and> ?n \<le> 0xDF)" "0xE0 \<le> ?n \<and> ?n \<le> 0xEF"
    | (four) "\<not> ?n < 0x80" "\<not> (0xC2 \<le> ?n \<and> ?n \<le> 0xDF)" "\<not> (0xE0 \<le> ?n \<and> ?n \<le> 0xEF)"
        "0xF0 \<le> ?n \<and> ?n \<le> 0xF4"
    | (none) "\<not> ?n < 0x80" "\<not> (0xC2 \<le> ?n \<and> ?n \<le> 0xDF)" "\<not> (0xE0 \<le> ?n \<and> ?n \<le> 0xEF)"
        "\<not> (0xF0 \<le> ?n \<and> ?n \<le> 0xF4)"
    by blast
  then show ?case
  proof cases
    case one
    with "2.prems" have "utf8_valid bs"
      by (simp only: utf8_valid.simps if_True)
    from "2.IH"(1) [OF one this] one show ?thesis
      by (simp only: append_Cons utf8_valid.simps if_True)
  next
    case two
    with "2.prems" have "case bs of c1 # r \<Rightarrow> continuation c1 \<and> utf8_valid r | _ \<Rightarrow> False"
      by (simp only: utf8_valid.simps if_True if_False simp_thms)
    then obtain c1 r where bs: "bs = c1 # r" and c: "continuation c1" and r: "utf8_valid r"
      by (cases bs) auto
    from "2.IH"(2) [OF two bs r] two bs c show ?thesis
      by (simp only: append_Cons utf8_valid.simps if_True if_False list.case simp_thms)
  next
    case three
    with "2.prems" have "case bs of
        c1 # c2 # r \<Rightarrow> second_byte ?n c1 \<and> continuation c2 \<and> utf8_valid r | _ \<Rightarrow> False"
      by (simp only: utf8_valid.simps if_True if_False simp_thms)
    then obtain c1 c2 r where bs: "bs = c1 # c2 # r"
      and c: "second_byte ?n c1" "continuation c2" and r: "utf8_valid r"
      by (auto split: list.splits)
    from "2.IH"(3) [OF three bs refl r] three bs c show ?thesis
      by (simp only: append_Cons utf8_valid.simps if_True if_False list.case simp_thms)
  next
    case four
    with "2.prems" have "case bs of
        c1 # c2 # c3 # r \<Rightarrow>
          second_byte ?n c1 \<and> continuation c2 \<and> continuation c3 \<and> utf8_valid r
      | _ \<Rightarrow> False"
      by (simp only: utf8_valid.simps if_True if_False simp_thms)
    then obtain c1 c2 c3 r where bs: "bs = c1 # c2 # c3 # r"
      and c: "second_byte ?n c1" "continuation c2" "continuation c3" and r: "utf8_valid r"
      by (auto split: list.splits)
    from "2.IH"(4) [OF four bs refl refl r] four bs c show ?thesis
      by (simp only: append_Cons utf8_valid.simps if_True if_False list.case simp_thms)
  next
    case none
    with "2.prems" show ?thesis
      by (simp only: utf8_valid.simps if_False simp_thms)
  qed
qed

section \<open>Reading lines\<close>

lemma universal_newlines_id: "CR \<notin> set s \<Longrightarrow> universal_newlines s = s"
  by (induction s rule: universal_newlines.induct) auto

lemma split_lines_concat: "concat (split_lines cur s) = cur @ s"
  by (induction s arbitrary: cur) auto

lemma readlines_concat: "concat (readlines txt) = universal_newlines txt"
  by (simp add: readlines_def split_lines_concat)

lemma split_lines_line:
  "LF \<notin> set b \<Longrightarrow> split_lines cur (b @ LF # rest) = (cur @ b @ [LF]) # split_lines [] rest"
  by (induction b arbitrary: cur) auto

lemma proper_line_shape: "proper_line l \<Longrightarrow> \<exists>b. l = b @ [LF] \<and> LF \<notin> set b \<and> CR \<notin> set b"
proof (induction l rule: proper_line.induct)
  case 1
  then show ?case by simp
next
  case (2 c)
  then show ?case by simp
next
  case (3 c d ds)
  from "3.prems" have c: "c \<noteq> LF" "c \<noteq> CR" and rest: "proper_line (d # ds)"
    by simp_all
  from "3.IH" [OF rest] obtain b where "d # ds = b @ [LF]" "LF \<notin> set b" "CR \<notin> set b"
    by blast
  with c have "c # d # ds = (c # b) @ [LF] \<and> LF \<notin> set (c # b) \<and> CR \<notin> set (c # b)"
    by auto
  then show ?case by blast
qed

lemma proper_line_no_CR: "proper_line l \<Longrightarrow> CR \<notin> set l"
  by (auto dest!: proper_line_shape simp: LF_def CR_def)

lemma split_lines_proper:
  "list_all proper_line ls \<Longrightarrow> split_lines [] (concat ls) = ls"
proof (induction ls)
  case Nil
  then show ?case by simp
next
  case (Cons l ls)
  then obtain b where b: "l = b @ [LF]" "LF \<notin> set b"
    using proper_line_shape [of l] by auto
  have "split_lines [] (concat (l # ls)) = split_lines [] (b @ LF # concat ls)"
    by (simp add: b)
  also have "\<dots> = (b @ [LF]) # split_lines [] (concat ls)"
    using b(2) by (simp add: split_lines_line)
  finally show ?case using Cons b by simp
qed

lemma readlines_proper: "list_all proper_line ls \<Longrightarrow> readlines (concat ls) = ls"
proof -
  assume a: "list_all proper_line ls"
  then have "CR \<notin> set (concat ls)"
    by (auto simp: list_all_iff dest: proper_line_no_CR)
  then show ?thesis
    by (simp add: readlines_def universal_newlines_id split_lines_proper a)
qed


section \<open>The loop of fix_builtup.py\<close>

lemma body_marker:
  "str_in start_marker line \<Longrightarrow>
   body lines line s =
     Inr (s\<lparr>new_lines := new_lines s @ [line, new_code], skip := True, found_marker := True\<rparr>)"
  by (simp add: body_def)

lemma body_copy:
  "\<not> str_in start_marker line \<Longrightarrow> \<not> skip s \<Longrightarrow>
   body lines line s = Inr (s\<lparr>new_lines := new_lines s @ [line]\<rparr>)"
  by (simp add: body_def)

lemma body_skip:
  "\<not> str_in start_marker line \<Longrightarrow> skip s \<Longrightarrow> region_end lines line = Inr False \<Longrightarrow>
   body lines line s = Inr s"
  by (simp add: body_def)

lemma body_stop:
  "\<not> str_in start_marker line \<Longrightarrow> skip s \<Longrightarrow> region_end lines line = Inr True \<Longrightarrow>
   body lines line s = Inr (s\<lparr>new_lines := new_lines s @ [line], skip := False\<rparr>)"
  by (simp add: body_def)

lemma body_raise:
  "\<not> str_in start_marker line \<Longrightarrow> skip s \<Longrightarrow> region_end lines line = Inl e \<Longrightarrow>
   body lines line s = Inl e"
  by (simp add: body_def)

lemma for_loop_append:
  "for_loop lines (a @ b) s =
     (case for_loop lines a s of Inl e \<Rightarrow> Inl e | Inr s' \<Rightarrow> for_loop lines b s')"
  by (induction a arbitrary: s) (auto split: sum.splits)

lemma for_loop_copy:
  "list_all (\<lambda>l. \<not> str_in start_marker l) ls \<Longrightarrow> \<not> skip s \<Longrightarrow>
   for_loop lines ls s = Inr (s\<lparr>new_lines := new_lines s @ ls\<rparr>)"
proof (induction ls arbitrary: s)
  case Nil
  then show ?case by simp
next
  case (Cons l ls)
  from Cons.prems have "body lines l s = Inr (s\<lparr>new_lines := new_lines s @ [l]\<rparr>)"
    by (simp add: body_copy)
  moreover have "for_loop lines ls (s\<lparr>new_lines := new_lines s @ [l]\<rparr>) =
      Inr (s\<lparr>new_lines := new_lines s @ l # ls\<rparr>)"
    using Cons.IH [of "s\<lparr>new_lines := new_lines s @ [l]\<rparr>"] Cons.prems by simp
  ultimately show ?case by simp
qed

lemma for_loop_skip:
  "list_all (\<lambda>l. \<not> str_in start_marker l \<and> region_end lines l = Inr False) ls \<Longrightarrow> skip s \<Longrightarrow>
   for_loop lines ls s = Inr s"
  by (induction ls) (simp_all add: body_skip)

lemma region_end_defined:
  assumes "l \<in> set front"
  shows "\<exists>v. region_end (front @ b # post) l = Inr v"
proof -
  from list_index_first [OF assms, of "b # post"]
  obtain i where "list_index (front @ b # post) l = Inr i" "i < length front"
    by blast
  then show ?thesis
    by (auto simp: region_end_def lookahead_def subscript_def)
qed

lemma scan_splice:
  assumes lines: "lines = pre @ [m] @ mid @ [b] @ post"
    and pre: "list_all (\<lambda>l. \<not> str_in start_marker l) pre"
    and m: "str_in start_marker m"
    and tail: "list_all (\<lambda>l. \<not> str_in start_marker l) (mid @ [b] @ post)"
    and mid: "list_all (\<lambda>l. region_end lines l \<noteq> Inr True) mid"
    and b: "region_end lines b = Inr True"
  shows "scan lines =
    Inr \<lparr>new_lines = pre @ [m] @ [new_code] @ [b] @ post, skip = False, found_marker = True\<rparr>"
proof -
  let ?s1 = "\<lparr>new_lines = pre, skip = False, found_marker = False\<rparr>"
  let ?s2 = "\<lparr>new_lines = pre @ [m, new_code], skip = True, found_marker = True\<rparr>"
  let ?s3 = "\<lparr>new_lines = pre @ [m, new_code, b], skip = False, found_marker = True\<rparr>"
  have 1: "for_loop lines pre init = Inr ?s1"
    using for_loop_copy [OF pre, of init lines] by (simp add: init_def)
  have 2: "body lines m ?s1 = Inr ?s2"
    by (simp add: body_marker [OF m])
  have "region_end lines l = Inr False" if "l \<in> set mid" for l
  proof -
    have "l \<in> set (pre @ [m] @ mid)" using that by simp
    from region_end_defined [OF this, of b post]
    obtain v where "region_end lines l = Inr v" by (auto simp: lines)
    moreover have "region_end lines l \<noteq> Inr True"
      using mid that by (simp add: list_all_iff)
    ultimately show ?thesis by (cases v) simp_all
  qed
  then have "list_all (\<lambda>l. \<not> str_in start_marker l \<and> region_end lines l = Inr False) mid"
    using tail by (simp add: list_all_iff)
  then have 3: "for_loop lines mid ?s2 = Inr ?s2"
    by (rule for_loop_skip) simp
  have 4: "body lines b ?s2 = Inr ?s3"
    using tail b by (simp add: body_stop)
  have 5: "for_loop lines post ?s3 =
      Inr \<lparr>new_lines = pre @ [m, new_code, b] @ post, skip = False, found_marker = True\<rparr>"
    using for_loop_copy [of post ?s3 lines] tail by simp
  have "scan lines = for_loop lines (pre @ m # mid @ b # post) init"
    by (simp add: scan_def lines)
  also have "\<dots> = Inr \<lparr>new_lines = pre @ [m, new_code, b] @ post, skip = False, found_marker = True\<rparr>"
    by (simp add: for_loop_append 1 2 3 4 5)
  finally show ?thesis by simp
qed

lemma scan_unterminated:
  assumes lines: "lines = pre @ [m] @ rest"
    and pre: "list_all (\<lambda>l. \<not> str_in start_marker l) pre"
    and m: "str_in start_marker m"
    and rest: "list_all (\<lambda>l. \<not> str_in start_marker l \<and> region_end lines l = Inr False) rest"
  shows "scan lines = Inr \<lparr>new_lines = pre @ [m] @ [new_code], skip = True, found_marker = True\<rparr>"
proof -
  let ?s1 = "\<lparr>new_lines = pre, skip = False, found_marker = False\<rparr>"
  let ?s2 = "\<lparr>new_lines = pre @ [m, new_code], skip = True, found_marker = True\<rparr>"
  have 1: "for_loop lines pre init = Inr ?s1"
    using for_loop_copy [OF pre, of init lines] by (simp add: init_def)
  have 2: "body lines m ?s1 = Inr ?s2"
    by (simp add: body_marker [OF m])
  have 3: "for_loop lines rest ?s2 = Inr ?s2"
    using rest by (rule for_loop_skip) simp
  have "scan lines = for_loop lines (pre @ m # rest) init"
    by (simp add: scan_def lines)
  also have "\<dots> = Inr ?s2"
    by (simp add: for_loop_append 1 2 3)
  finally show ?thesis by simp
qed

lemma scan_not_found:
  assumes "list_all (\<lambda>l. \<not> str_in start_marker l) lines"
  shows "scan lines = Inr \<lparr>new_lines = lines, skip = False, found_marker = False\<rparr>"
  using for_loop_copy [OF assms, of init lines] by (simp add: scan_def init_def)

lemma for_loop_grows: "for_loop lines ls s = Inr s' \<Longrightarrow> prefix (new_lines s) (new_lines s')"
proof (induction ls arbitrary: s)
  case Nil
  then show ?case by simp
next
  case (Cons l ls)
  then obtain s1 where s1: "body lines l s = Inr s1" and rest: "for_loop lines ls s1 = Inr s'"
    by (auto split: sum.splits)
  from s1 have "prefix (new_lines s) (new_lines s1)"
    by (auto simp: body_def Let_def split: if_splits sum.splits)
  with Cons.IH [OF rest] show ?case
    using prefix_order.order_trans by blast
qed

lemma scan_prefix:
  assumes "scan lines = Inr s"
  shows "prefix (takeWhile (\<lambda>l. \<not> str_in start_marker l) lines) (new_lines s)"
proof -
  let ?head = "takeWhile (\<lambda>l. \<not> str_in start_marker l) lines"
  let ?tail = "dropWhile (\<lambda>l. \<not> str_in start_marker l) lines"
  let ?s1 = "\<lparr>new_lines = ?head, skip = False, found_marker = False\<rparr>"
  have "list_all (\<lambda>l. \<not> str_in start_marker l) ?head"
    by (auto simp: list_all_iff dest: set_takeWhileD)
  from for_loop_copy [OF this, of init lines]
  have 1: "for_loop lines ?head init = Inr ?s1"
    by (simp add: init_def)
  have "scan lines = for_loop lines (?head @ ?tail) init"
    by (simp add: scan_def)
  also have "\<dots> = for_loop lines ?tail ?s1"
    by (simp only: for_loop_append 1 sum.case)
  finally have "for_loop lines ?tail ?s1 = Inr s"
    using assms by simp
  from for_loop_grows [OF this] show ?thesis by simp
qed

lemma for_loop_kept:
  "for_loop lines ls s = Inr s' \<Longrightarrow>
   \<exists>kept. subseq kept ls
     \<and> filter (str_in start_marker) kept = filter (str_in start_marker) ls
     \<and> new_lines s' = new_lines s
          @ concat (map (\<lambda>l. if str_in start_marker l then [l, new_code] else [l]) kept)"
proof (induction ls arbitrary: s)
  case Nil
  then show ?case by (intro exI [of _ "[]"]) simp
next
  case (Cons l ls)
  let ?f = "\<lambda>l. if str_in start_marker l then [l, new_code] else [l]"
  from Cons.prems obtain s1
    where s1: "body lines l s = Inr s1" and rest: "for_loop lines ls s1 = Inr s'"
    by (auto split: sum.splits)
  from Cons.IH [OF rest] obtain kept
    where k: "subseq kept ls"
      "filter (str_in start_marker) kept = filter (str_in start_marker) ls"
      "new_lines s' = new_lines s1 @ concat (map ?f kept)"
    by blast
  from s1 consider
      (ins) "str_in start_marker l" "new_lines s1 = new_lines s @ [l, new_code]"
    | (cp) "\<not> str_in start_marker l" "new_lines s1 = new_lines s @ [l]"
    | (drop) "\<not> str_in start_marker l" "new_lines s1 = new_lines s"
    by (auto simp: body_def Let_def split: if_splits sum.splits)
  then show ?case
  proof cases
    case ins
    with k have "subseq (l # kept) (l # ls)
      \<and> filter (str_in start_marker) (l # kept) = filter (str_in start_marker) (l # ls)
      \<and> new_lines s' = new_lines s @ concat (map ?f (l # kept))"
      by simp
    then show ?thesis by blast
  next
    case cp
    with k have "subseq (l # kept) (l # ls)
      \<and> filter (str_in start_marker) (l # kept) = filter (str_in start_marker) (l # ls)
      \<and> new_lines s' = new_lines s @ concat (map ?f (l # kept))"
      by simp
    then show ?thesis by blast
  next
    case drop
    with k have "subseq kept (l # ls)
      \<and> filter (str_in start_marker) kept = filter (str_in start_marker) (l # ls)
      \<and> new_lines s' = new_lines s @ concat (map ?f kept)"
      by (simp add: list_emb_Cons)
    then show ?thesis by blast
  qed
qed

text \<open>
  In skipping mode, over lines without the marker, the loop drops lines up to the first
  one on which the end-of-region test is true and copies from there on.
\<close>

lemma for_loop_region:
  assumes "list_all (\<lambda>l. \<not> str_in start_marker l) seg" and "skip s"
    and "for_loop lines seg s = Inr s'"
  shows "new_lines s' = new_lines s @ dropWhile (\<lambda>l. region_end lines l \<noteq> Inr True) seg"
  using assms
proof (induction seg arbitrary: s)
  case Nil
  then show ?case by simp
next
  case (Cons l seg)
  from Cons.prems(1) have l: "\<not> str_in start_marker l"
    and seg: "list_all (\<lambda>l. \<not> str_in start_marker l) seg"
    by simp_all
  show ?case
  proof (cases "region_end lines l")
    case (Inl e)
    with l Cons.prems(2) have "body lines l s = Inl e"
      by (simp add: body_raise)
    with Cons.prems(3) show ?thesis by simp
  next
    case (Inr stop)
    show ?thesis
    proof (cases stop)
      case True
      with Inr l Cons.prems(2)
      have b: "body lines l s = Inr (s\<lparr>new_lines := new_lines s @ [l], skip := False\<rparr>)"
        by (simp add: body_stop)
      have "for_loop lines seg (s\<lparr>new_lines := new_lines s @ [l], skip := False\<rparr>) =
          Inr (s\<lparr>new_lines := new_lines s @ l # seg, skip := False\<rparr>)"
        using for_loop_copy [OF seg, of "s\<lparr>new_lines := new_lines s @ [l], skip := False\<rparr>" lines]
        by simp
      with b Cons.prems(3) have "s' = s\<lparr>new_lines := new_lines s @ l # seg, skip := False\<rparr>"
        by simp
      with Inr True show ?thesis by simp
    next
      case False
      with Inr l Cons.prems(2) have "body lines l s = Inr s"
        by (simp add: body_skip)
      with Cons.prems(3) have "for_loop lines seg s = Inr s'"
        by simp
      from Cons.IH [OF seg Cons.prems(2) this] Inr False show ?thesis
        by simp
    qed
  qed
qed

text \<open>
  A block is a marker line with the lines after it up to the next marker line. Each block
  contributes its marker line, the payload, and what the skipping leaves of its lines,
  whatever the mode the loop was in when it reached the block.
\<close>

lemma for_loop_blocks:
  assumes "list_all (\<lambda>(m, seg). str_in start_marker m
        \<and> list_all (\<lambda>l. \<not> str_in start_marker l) seg) blocks"
    and "for_loop lines (concat (map (\<lambda>(m, seg). m # seg) blocks)) s = Inr s'"
  shows "new_lines s' = new_lines s
    @ concat (map (\<lambda>(m, seg). [m, new_code]
        @ dropWhile (\<lambda>l. region_end lines l \<noteq> Inr True) seg) blocks)"
  using assms
proof (induction blocks arbitrary: s)
  case Nil
  then show ?case by simp
next
  case (Cons blk blocks)
  obtain m seg where blk: "blk = (m, seg)"
    by (cases blk)
  from Cons.prems(1) blk have m: "str_in start_marker m"
    and seg: "list_all (\<lambda>l. \<not> str_in start_marker l) seg"
    and rest: "list_all (\<lambda>(m, seg). str_in start_marker m
        \<and> list_all (\<lambda>l. \<not> str_in start_marker l) seg) blocks"
    by simp_all
  let ?s1 = "s\<lparr>new_lines := new_lines s @ [m, new_code], skip := True, found_marker := True\<rparr>"
  let ?tail = "concat (map (\<lambda>(m, seg). m # seg) blocks)"
  from Cons.prems(2) blk have "for_loop lines (seg @ ?tail) ?s1 = Inr s'"
    by (simp add: body_marker [OF m])
  then obtain s2 where s2: "for_loop lines seg ?s1 = Inr s2"
    and tail: "for_loop lines ?tail s2 = Inr s'"
    by (auto simp: for_loop_append split: sum.splits)
  from for_loop_region [OF seg _ s2]
  have "new_lines s2 = new_lines s @ [m, new_code]
      @ dropWhile (\<lambda>l. region_end lines l \<noteq> Inr True) seg"
    by simp
  with Cons.IH [OF rest tail] blk show ?case
    by simp
qed

lemma list_index_here: "x \<notin> set xs \<Longrightarrow> list_index (xs @ x # ys) x = Inr (length xs)"
  by (induction xs) auto

text \<open>
  When the text of the candidate at position \<open>i\<close> does not occur before it, the test
  reads the candidate's own successor.
\<close>

lemma region_end_unique:
  assumes "i + 1 < length lines" and "lines ! i \<notin> set (take i lines)"
  shows "region_end lines (lines ! i) =
    Inr (str_in ''useEffect(() => {'' (lines ! i) \<and> str_in ''fetchSystemData'' (lines ! (i + 1)))"
proof -
  from assms(1) have "lines = take i lines @ lines ! i # drop (Suc i) lines"
    by (simp add: id_take_nth_drop)
  then have "list_index lines (lines ! i) = list_index (take i lines @ lines ! i # drop (Suc i) lines) (lines ! i)"
    by simp
  also have "\<dots> = Inr (length (take i lines))"
    using assms(2) by (rule list_index_here)
  finally have "list_index lines (lines ! i) = Inr i"
    using assms(1) by simp
  with assms(1) show ?thesis
    by (simp add: region_end_def lookahead_def subscript_def)
qed

section \<open>The runs\<close>

lemma read_file_valid: "content w = Some txt \<Longrightarrow> utf8_valid txt \<Longrightarrow> read_file w = Inr txt"
  by (simp add: read_file_def)

lemma fix_builtup_undecodable:
  "content w = Some bytes \<Longrightarrow> \<not> utf8_valid bytes \<Longrightarrow>
   fix_builtup w = (Some UnicodeDecodeError, w)"
  by (simp add: fix_builtup_def read_file_def)

lemma fix_builtup_found:
  assumes "content w = Some txt" and "utf8_valid txt" and "scan (readlines txt) = Inr s"
    and "found_marker s" and "writable w"
  shows "fix_builtup w =
    (None, w\<lparr>content := Some (concat (new_lines s)), writes := writes w + 1,
              stdout := stdout w @ [''Successfully updated the file.'']\<rparr>)"
  using assms
  by (simp add: fix_builtup_def read_file_def writelines_def write_file_def print_def)

lemma fix_builtup_not_found:
  assumes "content w = Some txt" and "utf8_valid txt" and "scan (readlines txt) = Inr s"
    and "\<not> found_marker s"
  shows "fix_builtup w = (None, w\<lparr>stdout := stdout w @ [''Could not find the start marker.'']\<rparr>)"
  using assms by (simp add: fix_builtup_def read_file_def print_def)

lemma fix_builtup_raise:
  assumes "content w = Some txt" and "utf8_valid txt" and "scan (readlines txt) = Inl e"
  shows "fix_builtup w = (Some e, w)"
  using assms by (simp add: fix_builtup_def read_file_def)

text \<open>A run of the block replacer that ends without an error has printed one line.\<close>

lemma fix_builtup_prints_once:
  assumes "fix_builtup w = (None, w')"
  shows "stdout w' = stdout w @ [''Successfully updated the file.'']
       \<or> stdout w' = stdout w @ [''Could not find the start marker.'']"
  using assms
  by (auto simp: fix_builtup_def read_file_def writelines_def write_file_def print_def
           split: option.splits sum.splits if_splits)

text \<open>The literal of the whole-document rewrite ends with a \<^verbatim>\<open>print\<close> statement.\<close>

lemma code_tail: \<open>suffix ''print("Successfully reconstructed the file.")\<newline>'' code\<close>
  unfolding code_def by (intro suffix_appendI) (rule suffix_order.refl)


section \<open>Facts about the sample lines\<close>

lemma region_end_plain:
  "\<not> str_in ''useEffect(() => {'' l \<Longrightarrow> region_end lines l = Inr False"
  by (simp add: region_end_def)

lemma region_end_at:
  "str_in ''useEffect(() => {'' l \<Longrightarrow> list_index lines l = Inr i \<Longrightarrow> i + 1 < length lines \<Longrightarrow>
   region_end lines l = Inr (str_in ''fetchSystemData'' (lines ! (i + 1)))"
  by (simp add: region_end_def lookahead_def subscript_def)

lemma region_end_off:
  "str_in ''useEffect(() => {'' l \<Longrightarrow> list_index lines l = Inr i \<Longrightarrow> length lines \<le> i + 1 \<Longrightarrow>
   region_end lines l = Inl IndexError"
  by (simp add: region_end_def lookahead_def subscript_def)

lemma str_in_differ: "str_in sub x \<Longrightarrow> \<not> str_in sub y \<Longrightarrow> x \<noteq> y"
  by auto

lemma box_in_start_marker: "CHR 0xE2 \<in> set start_marker"
  by (simp add: start_marker_def box_def)

lemma marker_line_marker: "str_in start_marker marker_line"
  unfolding marker_line_def by (rule str_in_mid)

lemma effect_line_plain: "\<not> str_in start_marker effect_line"
  by (rule str_in_missing_char [OF box_in_start_marker]) (simp add: effect_line_def)

lemma system_line_plain: "\<not> str_in start_marker system_line"
  by (rule str_in_missing_char [OF box_in_start_marker]) (simp add: system_line_def)

lemma call_line_plain: "\<not> str_in start_marker call_line"
  by (rule str_in_missing_char [OF box_in_start_marker]) (simp add: call_line_def)

lemma close_line_plain: "\<not> str_in start_marker close_line"
  by (rule str_in_missing_char [OF box_in_start_marker]) (simp add: close_line_def)

lemma effect_line_effect: "str_in ''useEffect(() => {'' effect_line"
proof -
  have "effect_line = ''    '' @ ''useEffect(() => {'' @ ''\<newline>''"
    by (simp add: effect_line_def)
  then show ?thesis using str_in_mid by metis
qed

lemma system_line_system: "str_in ''fetchSystemData'' system_line"
proof -
  have "system_line = ''        const '' @ ''fetchSystemData'' @ '' = async () => {\<newline>''"
    by (simp add: system_line_def)
  then show ?thesis using str_in_mid by metis
qed

lemma system_line_no_effect: "\<not> str_in ''useEffect(() => {'' system_line"
  by (rule str_in_missing_char [of "CHR ''E''"]) (simp_all add: system_line_def)

lemma call_line_no_effect: "\<not> str_in ''useEffect(() => {'' call_line"
  by (rule str_in_missing_char [of "CHR ''E''"]) (simp_all add: call_line_def)

lemma close_line_no_effect: "\<not> str_in ''useEffect(() => {'' close_line"
  by (rule str_in_missing_char [of "CHR ''E''"]) (simp_all add: close_line_def)

lemma marker_line_no_effect: "\<not> str_in ''useEffect(() => {'' marker_line"
  by (rule str_in_missing_char [of "CHR ''(''"])
     (simp_all add: marker_line_def start_marker_def box_def)

lemma call_line_no_system: "\<not> str_in ''fetchSystemData'' call_line"
  by (rule str_in_missing_char [of "CHR ''S''"]) (simp_all add: call_line_def)

lemma effect_line_no_system: "\<not> str_in ''fetchSystemData'' effect_line"
  by (rule str_in_missing_char [of "CHR ''S''"]) (simp_all add: effect_line_def)

lemmas sample_plain = effect_line_plain system_line_plain call_line_plain close_line_plain

lemmas sample_no_effect =
  system_line_no_effect call_line_no_effect close_line_no_effect marker_line_no_effect

lemma sample_differ:
  "marker_line \<noteq> effect_line" "close_line \<noteq> effect_line" "call_line \<noteq> effect_line"
  "system_line \<noteq> effect_line"
  using str_in_differ [OF effect_line_effect marker_line_no_effect]
    str_in_differ [OF effect_line_effect close_line_no_effect]
    str_in_differ [OF effect_line_effect call_line_no_effect]
    str_in_differ [OF effect_line_effect system_line_no_effect]
  by simp_all

lemma sample_proper:
  "proper_line marker_line" "proper_line effect_line" "proper_line system_line"
  "proper_line call_line" "proper_line close_line"
  by (simp_all add: marker_line_def effect_line_def system_line_def call_line_def
        close_line_def start_marker_def box_def LF_def CR_def)


lemma utf8_valid_box: "utf8_valid box"
  by (simp add: box_def continuation_def second_byte_def)

text \<open>
  The decoder on short inputs: a two-byte and a four-byte character decode; an overlong
  form, a surrogate, a code point beyond \<open>10FFFF\<close>, a truncated character and a lone
  continuation byte do not.
\<close>

lemma utf8_valid_examples:
  "utf8_valid [CHR 0xC3, CHR 0xA9]"
  "utf8_valid [CHR 0xF0, CHR 0x9F, CHR 0x8F, CHR 0xA2]"
  "\<not> utf8_valid [CHR 0xC0, CHR 0x80]"
  "\<not> utf8_valid [CHR 0xED, CHR 0xA0, CHR 0x80]"
  "\<not> utf8_valid [CHR 0xF4, CHR 0x90, CHR 0x80, CHR 0x80]"
  "\<not> utf8_valid [CHR 0xE2, CHR 0x94]"
  "\<not> utf8_valid [CHR 0x80]"
  by (simp_all add: continuation_def second_byte_def)

lemma utf8_valid_start_marker: "utf8_valid start_marker"
  by (simp add: start_marker_def utf8_valid_append utf8_valid_box)

lemma sample_valid:
  "utf8_valid marker_line" "utf8_valid effect_line" "utf8_valid system_line"
  "utf8_valid call_line" "utf8_valid close_line"
  by (simp_all add: marker_line_def effect_line_def system_line_def call_line_def
        close_line_def utf8_valid_append utf8_valid_start_marker)

lemma utf8_valid_new_code: "utf8_valid new_code"
  by (rule utf8_valid_ascii) (simp add: new_code_def)


section \<open>Facts about the sample texts\<close>

lemma new_code_concat: "new_code = concat new_code_lines"
  by (simp only: new_code_def new_code_lines_def concat.simps append_Nil2)

lemma new_code_lines_proper: "list_all proper_line new_code_lines"
  by (simp add: new_code_lines_def LF_def CR_def)

lemma new_code_lines_plain: "list_all (\<lambda>l. \<not> str_in start_marker l) new_code_lines"
proof -
  have "list_all (\<lambda>l. CHR 0xE2 \<notin> set l) new_code_lines"
    by (simp add: new_code_lines_def)
  then show ?thesis
    by (auto simp: list_all_iff dest: str_in_missing_char [OF box_in_start_marker])
qed

lemma new_code_lines_effect:
  "list_all (\<lambda>l. l = effect_line \<or> \<not> str_in ''useEffect(() => {'' l) new_code_lines"
proof -
  have e: "\<not> str_in ''useEffect(() => {'' l" if "CHR ''E'' \<notin> set l" for l
    using str_in_missing_char [of "CHR ''E''" "''useEffect(() => {''" l] that by simp
  have "list_all (\<lambda>l. l = effect_line \<or> CHR ''E'' \<notin> set l) new_code_lines"
    by (simp add: new_code_lines_def effect_line_def)
  with e show ?thesis
    by (auto simp: list_all_iff)
qed

lemma new_code_lines_shape:
  "new_code_lines =
     effect_line # ''        const fetchBuiltupDetail = async () => {\<newline>'' # drop 2 new_code_lines"
  by (simp add: new_code_lines_def effect_line_def)


lemma fetch_builtup_no_system:
  "\<not> str_in ''fetchSystemData'' ''        const fetchBuiltupDetail = async () => {\<newline>''"
  by (rule str_in_missing_char [of "CHR ''S''"]) simp_all

lemma readlines_sample:
  "readlines splice_doc = [close_line, marker_line, call_line, effect_line, system_line]"
  "readlines plain_doc = [close_line, call_line, effect_line, system_line]"
  "readlines twice_doc = [marker_line, close_line, marker_line]"
  "readlines open_doc = [close_line, marker_line, effect_line, call_line]"
  "readlines cut_doc = [marker_line, effect_line]"
  "readlines idem_doc = [marker_line, effect_line, system_line]"
  "readlines shadow_doc = [marker_line, effect_line, call_line, effect_line, system_line]"
  "readlines unshadowed_doc = [marker_line, close_line, call_line, effect_line, system_line]"
  "readlines again_doc = [marker_line, effect_line, system_line, marker_line, close_line]"
  using readlines_proper [of "[close_line, marker_line, call_line, effect_line, system_line]"]
    readlines_proper [of "[close_line, call_line, effect_line, system_line]"]
    readlines_proper [of "[marker_line, close_line, marker_line]"]
    readlines_proper [of "[close_line, marker_line, effect_line, call_line]"]
    readlines_proper [of "[marker_line, effect_line]"]
    readlines_proper [of "[marker_line, effect_line, system_line]"]
    readlines_proper [of "[marker_line, effect_line, call_line, effect_line, system_line]"]
    readlines_proper [of "[marker_line, close_line, call_line, effect_line, system_line]"]
    readlines_proper [of "[marker_line, effect_line, system_line, marker_line, close_line]"]
  by (simp_all add: sample_proper splice_doc_def plain_doc_def twice_doc_def open_doc_def
        cut_doc_def idem_doc_def shadow_doc_def unshadowed_doc_def again_doc_def)

lemma valid_sample:
  "utf8_valid splice_doc" "utf8_valid plain_doc" "utf8_valid twice_doc" "utf8_valid open_doc"
  "utf8_valid cut_doc" "utf8_valid idem_doc" "utf8_valid shadow_doc"
  "utf8_valid unshadowed_doc" "utf8_valid again_doc"
  by (simp_all add: sample_valid utf8_valid_append splice_doc_def plain_doc_def twice_doc_def
        open_doc_def cut_doc_def idem_doc_def shadow_doc_def unshadowed_doc_def again_doc_def)

lemma valid_rerun: "utf8_valid (marker_line @ new_code @ effect_line @ system_line)"
  by (simp add: sample_valid utf8_valid_append utf8_valid_new_code)

lemma latin_doc_invalid: "\<not> utf8_valid latin_doc"
  by (simp add: latin_doc_def second_byte_def continuation_def)

lemma readlines_rerun:
  "readlines (marker_line @ new_code @ effect_line @ system_line) =
     marker_line # new_code_lines @ [effect_line, system_line]"
  using readlines_proper [of "marker_line # new_code_lines @ [effect_line, system_line]"]
  by (simp add: sample_proper new_code_lines_proper new_code_concat)

lemma region_end_splice_doc:
  "region_end [close_line, marker_line, call_line, effect_line, system_line] effect_line = Inr True"
  using region_end_at [of effect_line
      "[close_line, marker_line, call_line, effect_line, system_line]" 3]
  by (simp add: effect_line_effect system_line_system sample_differ)

lemma region_end_idem_doc:
  "region_end [marker_line, effect_line, system_line] effect_line = Inr True"
  using region_end_at [of effect_line "[marker_line, effect_line, system_line]" 1]
  by (simp add: effect_line_effect system_line_system sample_differ)

lemma region_end_unshadowed_doc:
  "region_end [marker_line, close_line, call_line, effect_line, system_line] effect_line = Inr True"
  using region_end_at [of effect_line
      "[marker_line, close_line, call_line, effect_line, system_line]" 3]
  by (simp add: effect_line_effect system_line_system sample_differ)

lemma region_end_shadow_doc:
  "region_end [marker_line, effect_line, call_line, effect_line, system_line] effect_line = Inr False"
  using region_end_at [of effect_line
      "[marker_line, effect_line, call_line, effect_line, system_line]" 1]
  by (simp add: effect_line_effect call_line_no_system sample_differ)

lemma region_end_cut_doc:
  "region_end [marker_line, effect_line] effect_line = Inl IndexError"
  using region_end_off [of effect_line "[marker_line, effect_line]" 1]
  by (simp add: effect_line_effect sample_differ)

lemma region_end_rerun:
  "region_end (marker_line # new_code_lines @ [effect_line, system_line]) effect_line = Inr False"
proof -
  let ?l2 = "''        const fetchBuiltupDetail = async () => {\<newline>''"
  let ?lines = "marker_line # effect_line # ?l2 # drop 2 new_code_lines @ [effect_line, system_line]"
  have "list_index ?lines effect_line = Inr 1"
    by (simp add: sample_differ)
  from region_end_at [OF effect_line_effect this]
  have r: "region_end ?lines effect_line = Inr False"
    by (simp add: fetch_builtup_no_system)
  have eq: "marker_line # new_code_lines @ [effect_line, system_line] = ?lines"
    by (subst new_code_lines_shape) simp
  show ?thesis unfolding eq by (rule r)
qed


lemma region_end_again_doc:
  "region_end [marker_line, effect_line, system_line, marker_line, close_line] effect_line
     = Inr True"
  using region_end_at [of effect_line
      "[marker_line, effect_line, system_line, marker_line, close_line]" 1]
  by (simp add: effect_line_effect system_line_system sample_differ)

lemma shadow_doc_scan:
  "scan (readlines shadow_doc) =
     Inr \<lparr>new_lines = [marker_line, new_code], skip = True, found_marker = True\<rparr>"
proof -
  let ?lines = "[marker_line, effect_line, call_line, effect_line, system_line]"
  have rest: "list_all (\<lambda>l. \<not> str_in start_marker l \<and> region_end ?lines l = Inr False)
      [effect_line, call_line, effect_line, system_line]"
    by (simp add: sample_plain region_end_shadow_doc region_end_plain sample_no_effect)
  have "scan ?lines =
      Inr \<lparr>new_lines = [] @ [marker_line] @ [new_code], skip = True, found_marker = True\<rparr>"
    using scan_unterminated [of ?lines "[]" marker_line, OF _ _ marker_line_marker rest]
    by simp
  then show ?thesis
    by (simp add: readlines_sample)
qed

lemma shadow_doc_run:
  "fix_builtup (fresh shadow_doc) =
     (None, \<lparr>content = Some (marker_line @ new_code), writable = True,
             stdout = [''Successfully updated the file.''], writes = 1\<rparr>)"
  using fix_builtup_found [OF _ _ shadow_doc_scan, of "fresh shadow_doc"]
  by (simp add: fresh_def valid_sample)

lemma latin_doc_run: "fix_builtup (fresh latin_doc) = (Some UnicodeDecodeError, fresh latin_doc)"
  using fix_builtup_undecodable [of "fresh latin_doc" latin_doc] latin_doc_invalid
  by (simp add: fresh_def)


section \<open>The claims\<close>

text \<open>
  C1 (exact splice). On the code this fails. In \<^const>\<open>shadow_doc\<close> the start marker
  stands on exactly one line, line 0. Line 3 is the first later line that contains
  \<^verbatim>\<open>useEffect(() => {\<close> and whose own next line contains \<^verbatim>\<open>fetchSystemData\<close>:
  line 1 contains the former but is followed by the call line, and line 2 does not contain
  it. The claim has the run write the marker line, the payload, line 3 and line 4. The loop
  looks line 3 up by its text, finds line 1, reads line 2 and never leaves skipping mode:
  the run writes the marker line and the payload only.
\<close>

theorem splice_misses_boundary:
  "readlines shadow_doc = [marker_line, effect_line, call_line, effect_line, system_line]
   \<and> utf8_valid shadow_doc
   \<and> str_in start_marker marker_line
   \<and> list_all (\<lambda>l. \<not> str_in start_marker l) [effect_line, call_line, effect_line, system_line]
   \<and> \<not> str_in ''fetchSystemData'' call_line
   \<and> \<not> str_in ''useEffect(() => {'' call_line
   \<and> str_in ''useEffect(() => {'' effect_line \<and> str_in ''fetchSystemData'' system_line
   \<and> fix_builtup (fresh shadow_doc) =
       (None, \<lparr>content = Some (marker_line @ new_code), writable = True,
               stdout = [''Successfully updated the file.''], writes = 1\<rparr>)
   \<and> marker_line @ new_code \<noteq> marker_line @ new_code @ effect_line @ system_line"
proof -
  have "marker_line @ new_code \<noteq> marker_line @ new_code @ effect_line @ system_line"
    by (simp add: effect_line_def)
  then show ?thesis
    by (simp add: readlines_sample valid_sample marker_line_marker sample_plain
          call_line_no_system call_line_no_effect effect_line_effect system_line_system
          shadow_doc_run)
qed

text \<open>
  C2 (the lookahead reads the successor of the candidate). On the code this fails: the
  test looks the candidate up with \<^verbatim>\<open>lines.index(line)\<close>, which finds the first line
  with the same text, and reads the line after that one. The two documents below agree on
  lines 3 and 4, an effect line followed by the \<^verbatim>\<open>fetchSystemData\<close> line; the
  test stops the skipping in one and not in the other, where the same effect line already
  stands at position 1, and there the run drops the rest of the file.
\<close>

theorem lookahead_reads_first_occurrence:
  "readlines shadow_doc = [marker_line, effect_line, call_line, effect_line, system_line]
   \<and> readlines unshadowed_doc = [marker_line, close_line, call_line, effect_line, system_line]
   \<and> str_in ''useEffect(() => {'' effect_line \<and> str_in ''fetchSystemData'' system_line
   \<and> region_end (readlines shadow_doc) (readlines shadow_doc ! 3) = Inr False
   \<and> region_end (readlines unshadowed_doc) (readlines unshadowed_doc ! 3) = Inr True
   \<and> fix_builtup (fresh shadow_doc) =
       (None, \<lparr>content = Some (marker_line @ new_code), writable = True,
               stdout = [''Successfully updated the file.''], writes = 1\<rparr>)"
  by (simp add: readlines_sample effect_line_effect system_line_system
        region_end_shadow_doc region_end_unshadowed_doc shadow_doc_run)

text \<open>
  C3 (not-found identity). When the bytes of the file decode and no line of the document
  contains the start marker, the run ends without an error, the file is not opened for
  writing and keeps its bytes, and the one line printed is the not-found message.
\<close>

theorem not_found_identity:
  assumes "content w = Some txt" and "utf8_valid txt"
    and "list_all (\<lambda>l. \<not> str_in start_marker l) (readlines txt)"
  shows "fix_builtup w = (None, w\<lparr>stdout := stdout w @ [''Could not find the start marker.'']\<rparr>)
    \<and> content (snd (fix_builtup w)) = Some txt
    \<and> writes (snd (fix_builtup w)) = writes w"
proof -
  from scan_not_found [OF assms(3)]
  have "fix_builtup w = (None, w\<lparr>stdout := stdout w @ [''Could not find the start marker.'']\<rparr>)"
    using fix_builtup_not_found [OF assms(1,2)] by simp
  then show ?thesis using assms(1) by simp
qed

theorem not_found_identity_witness:
  "content (fresh plain_doc) = Some plain_doc
   \<and> utf8_valid plain_doc
   \<and> list_all (\<lambda>l. \<not> str_in start_marker l) (readlines plain_doc)
   \<and> fix_builtup (fresh plain_doc) =
       (None, \<lparr>content = Some plain_doc, writable = True,
               stdout = [''Could not find the start marker.''], writes = 0\<rparr>)"
proof -
  have 1: "content (fresh plain_doc) = Some plain_doc"
    by (simp add: fresh_def)
  have 2: "utf8_valid plain_doc"
    by (simp add: valid_sample)
  have 3: "list_all (\<lambda>l. \<not> str_in start_marker l) (readlines plain_doc)"
    by (simp add: readlines_sample sample_plain)
  from not_found_identity [OF 1 2 3] 1 2 3 show ?thesis
    by (simp add: fresh_def)
qed


text \<open>
  C4 (idempotence is not guaranteed). The text \<^const>\<open>idem_doc\<close> has the marker on
  exactly one line and an end boundary after it. The first run splices the payload in. The
  second run, on that output, finds the boundary line's text first inside the payload,
  whose first line it equals, never leaves skipping mode and writes a shorter file.
\<close>

theorem idempotence_fails:
  "readlines idem_doc = [marker_line, effect_line, system_line]
   \<and> str_in start_marker marker_line
   \<and> \<not> str_in start_marker effect_line \<and> \<not> str_in start_marker system_line
   \<and> region_end (readlines idem_doc) effect_line = Inr True
   \<and> effect_line \<in> set (readlines new_code)
   \<and> fix_builtup (fresh idem_doc) =
       (None, \<lparr>content = Some (marker_line @ new_code @ effect_line @ system_line),
               writable = True, stdout = [''Successfully updated the file.''], writes = 1\<rparr>)
   \<and> fix_builtup \<lparr>content = Some (marker_line @ new_code @ effect_line @ system_line),
               writable = True, stdout = [''Successfully updated the file.''], writes = 1\<rparr> =
       (None, \<lparr>content = Some (marker_line @ new_code), writable = True,
               stdout = [''Successfully updated the file.'', ''Successfully updated the file.''],
               writes = 2\<rparr>)
   \<and> marker_line @ new_code \<noteq> marker_line @ new_code @ effect_line @ system_line"
proof -
  let ?out = "marker_line @ new_code @ effect_line @ system_line"
  let ?w1 = "\<lparr>content = Some ?out, writable = True,
      stdout = [''Successfully updated the file.''], writes = 1\<rparr>"
  let ?lines2 = "marker_line # new_code_lines @ [effect_line, system_line]"
  have "scan [marker_line, effect_line, system_line] =
      Inr \<lparr>new_lines = [] @ [marker_line] @ [new_code] @ [effect_line] @ [system_line],
           skip = False, found_marker = True\<rparr>"
    using scan_splice [of "[marker_line, effect_line, system_line]" "[]" marker_line "[]"
        effect_line "[system_line]"]
    by (simp add: marker_line_marker sample_plain region_end_idem_doc)
  then have s1: "scan (readlines idem_doc) =
      Inr \<lparr>new_lines = [marker_line, new_code, effect_line, system_line],
           skip = False, found_marker = True\<rparr>"
    by (simp add: readlines_sample)
  have run1: "fix_builtup (fresh idem_doc) = (None, ?w1)"
    using fix_builtup_found [OF _ _ s1, of "fresh idem_doc"]
    by (simp add: fresh_def valid_sample)
  have "region_end ?lines2 l = Inr False" if "l \<in> set new_code_lines" for l
    using new_code_lines_effect that region_end_rerun region_end_plain [of l ?lines2]
    by (auto simp: list_all_iff)
  then have "list_all (\<lambda>l. \<not> str_in start_marker l \<and> region_end ?lines2 l = Inr False)
      new_code_lines"
    using new_code_lines_plain by (simp add: list_all_iff)
  then have rest: "list_all (\<lambda>l. \<not> str_in start_marker l \<and> region_end ?lines2 l = Inr False)
      (new_code_lines @ [effect_line, system_line])"
    by (simp add: sample_plain region_end_rerun region_end_plain system_line_no_effect)
  have "scan ?lines2 =
      Inr \<lparr>new_lines = [] @ [marker_line] @ [new_code], skip = True, found_marker = True\<rparr>"
    using scan_unterminated [of ?lines2 "[]" marker_line, OF _ _ marker_line_marker rest]
    by simp
  then have s2: "scan (readlines ?out) =
      Inr \<lparr>new_lines = [marker_line, new_code], skip = True, found_marker = True\<rparr>"
    by (simp add: readlines_rerun)
  have run2: "fix_builtup ?w1 =
      (None, \<lparr>content = Some (marker_line @ new_code), writable = True,
              stdout = [''Successfully updated the file.'', ''Successfully updated the file.''],
              writes = 2\<rparr>)"
    using fix_builtup_found [OF _ _ s2, of ?w1] by (simp add: valid_rerun)
  have rl: "readlines new_code = new_code_lines"
    using readlines_proper [OF new_code_lines_proper] by (simp add: new_code_concat)
  have inside: "effect_line \<in> set (readlines new_code)"
    unfolding rl by (subst new_code_lines_shape) simp
  have differ: "marker_line @ new_code \<noteq> ?out"
    by (simp add: effect_line_def)
  show ?thesis
    using run1 run2 inside differ
    by (simp add: readlines_sample marker_line_marker sample_plain region_end_idem_doc)
qed

text \<open>
  C5 (first match wins). On the code this fails: the loop tests every line for the start
  marker, whatever its mode. In \<^const>\<open>again_doc\<close> the first region ends at the effect
  line, so the loop is copying again when it meets the second marker line; that line is
  copied, followed by a second copy of the payload, and skipping mode is entered a second
  time, which drops the last line.
\<close>

theorem first_match_wins_counterexample:
  "readlines again_doc = [marker_line, effect_line, system_line, marker_line, close_line]
   \<and> str_in start_marker marker_line
   \<and> for_loop (readlines again_doc) [marker_line, effect_line, system_line] init =
       Inr \<lparr>new_lines = [marker_line, new_code, effect_line, system_line],
            skip = False, found_marker = True\<rparr>
   \<and> scan (readlines again_doc) =
       Inr \<lparr>new_lines = [marker_line, new_code, effect_line, system_line,
                         marker_line, new_code],
            skip = True, found_marker = True\<rparr>"
  by (simp add: readlines_sample marker_line_marker scan_def init_def body_marker body_stop
        body_copy body_skip sample_plain region_end_again_doc region_end_plain
        close_line_no_effect)

text \<open>
  C5 as amended: every line that contains the start marker triggers the replacement,
  whether or not one has happened before. Cut the document into the lines before the
  first marker line and, for each marker line, the block made of that line and the lines
  up to the next marker line. When the scan completes, its output is the lines before the
  first marker line, then for every block its marker line, one copy of the payload, and
  the lines of the block from the first one on which the end-of-region test is true: each
  marker line is copied, is followed at once by the payload, and enters skipping mode.
\<close>

theorem every_marker_line_replaces:
  assumes "scan lines = Inr s"
    and "lines = pre @ concat (map (\<lambda>(m, seg). m # seg) blocks)"
    and "list_all (\<lambda>l. \<not> str_in start_marker l) pre"
    and "list_all (\<lambda>(m, seg). str_in start_marker m
        \<and> list_all (\<lambda>l. \<not> str_in start_marker l) seg) blocks"
  shows "new_lines s = pre
    @ concat (map (\<lambda>(m, seg). [m, new_code]
        @ dropWhile (\<lambda>l. region_end lines l \<noteq> Inr True) seg) blocks)"
proof -
  let ?s1 = "\<lparr>new_lines = pre, skip = False, found_marker = False\<rparr>"
  let ?tail = "concat (map (\<lambda>(m, seg). m # seg) blocks)"
  have 1: "for_loop lines pre init = Inr ?s1"
    using for_loop_copy [OF assms(3), of init lines] by (simp add: init_def)
  have "scan lines = for_loop lines (pre @ ?tail) init"
    using assms(2) by (simp add: scan_def)
  also have "\<dots> = for_loop lines ?tail ?s1"
    by (simp only: for_loop_append 1 sum.case)
  finally have "for_loop lines ?tail ?s1 = Inr s"
    using assms(1) by simp
  from for_loop_blocks [OF assms(4) this] show ?thesis
    by simp
qed

theorem every_marker_line_replaces_witness:
  "scan [marker_line, effect_line, system_line, marker_line, close_line] =
     Inr \<lparr>new_lines = [marker_line, new_code, effect_line, system_line,
                       marker_line, new_code],
          skip = True, found_marker = True\<rparr>
   \<and> [marker_line, effect_line, system_line, marker_line, close_line] =
       [] @ concat (map (\<lambda>(m, seg). m # seg)
          [(marker_line, [effect_line, system_line]), (marker_line, [close_line])])
   \<and> list_all (\<lambda>l. \<not> str_in start_marker l) []
   \<and> list_all (\<lambda>(m, seg). str_in start_marker m
         \<and> list_all (\<lambda>l. \<not> str_in start_marker l) seg)
       [(marker_line, [effect_line, system_line]), (marker_line, [close_line])]
   \<and> dropWhile (\<lambda>l. region_end [marker_line, effect_line, system_line, marker_line, close_line] l
         \<noteq> Inr True) [effect_line, system_line] = [effect_line, system_line]
   \<and> dropWhile (\<lambda>l. region_end [marker_line, effect_line, system_line, marker_line, close_line] l
         \<noteq> Inr True) [close_line] = []
   \<and> [marker_line, new_code, effect_line, system_line, marker_line, new_code] =
       [] @ concat (map (\<lambda>(m, seg). [m, new_code]
          @ dropWhile (\<lambda>l. region_end
                [marker_line, effect_line, system_line, marker_line, close_line] l \<noteq> Inr True) seg)
          [(marker_line, [effect_line, system_line]), (marker_line, [close_line])])"
proof -
  let ?lines = "[marker_line, effect_line, system_line, marker_line, close_line]"
  let ?blocks = "[(marker_line, [effect_line, system_line]), (marker_line, [close_line])]"
  have s: "scan ?lines =
      Inr \<lparr>new_lines = [marker_line, new_code, effect_line, system_line,
                        marker_line, new_code],
           skip = True, found_marker = True\<rparr>"
    by (simp add: marker_line_marker scan_def init_def body_marker body_stop
          body_copy body_skip sample_plain region_end_again_doc region_end_plain
          close_line_no_effect)
  have 2: "?lines = [] @ concat (map (\<lambda>(m, seg). m # seg) ?blocks)"
    by simp
  have 3: "list_all (\<lambda>l. \<not> str_in start_marker l) []"
    by simp
  have 4: "list_all (\<lambda>(m, seg). str_in start_marker m
      \<and> list_all (\<lambda>l. \<not> str_in start_marker l) seg) ?blocks"
    by (simp add: marker_line_marker sample_plain)
  have 5: "dropWhile (\<lambda>l. region_end ?lines l \<noteq> Inr True) [effect_line, system_line] =
      [effect_line, system_line]"
    by (simp add: region_end_again_doc)
  have 6: "dropWhile (\<lambda>l. region_end ?lines l \<noteq> Inr True) [close_line] = []"
    by (simp add: region_end_plain close_line_no_effect)
  have 7: "[marker_line, new_code, effect_line, system_line, marker_line, new_code] =
      [] @ concat (map (\<lambda>(m, seg). [m, new_code]
         @ dropWhile (\<lambda>l. region_end ?lines l \<noteq> Inr True) seg) ?blocks)"
    using every_marker_line_replaces [OF s 2 3 4] by (simp only: scan_state.simps)
  show ?thesis
    by (intro conjI) (rule s 2 3 4 5 6 7)+
qed


text \<open>
  C6 (full replace). Whatever the file held before, a run of the whole-document rewrite
  that can open the file for writing leaves it holding exactly the literal
  \<^const>\<open>code\<close>.
\<close>

theorem full_replace:
  assumes "writable w"
  shows "reconstruct_inventory (w\<lparr>content := prior\<rparr>) =
    (None, w\<lparr>content := Some code, writes := writes w + 1\<rparr>)"
  using assms by (simp add: reconstruct_inventory_def write_file_def)

theorem full_replace_witness:
  "writable (fresh splice_doc)
   \<and> reconstruct_inventory ((fresh splice_doc)\<lparr>content := None\<rparr>) =
       (None, \<lparr>content = Some code, writable = True, stdout = [], writes = 1\<rparr>)
   \<and> reconstruct_inventory ((fresh splice_doc)\<lparr>content := Some plain_doc\<rparr>) =
       (None, \<lparr>content = Some code, writable = True, stdout = [], writes = 1\<rparr>)"
proof -
  have w: "writable (fresh splice_doc)"
    by (simp add: fresh_def)
  from full_replace [OF w, of None] full_replace [OF w, of "Some plain_doc"] w
  show ?thesis
    by (simp add: fresh_def)
qed

text \<open>
  C7 (one status line from every run). The block replacer prints one line whenever it
  ends without an error (\<open>fix_builtup_prints_once\<close>). The whole-document rewrite
  prints nothing: its run on a writable file ends without an error and leaves the output
  empty. The statement \<^verbatim>\<open>print("Successfully reconstructed the file.")\<close> stands
  inside the literal \<^verbatim>\<open>code\<close> (\<open>code_tail\<close>), not after it.
\<close>

theorem reconstruct_prints_nothing:
  "reconstruct_inventory (fresh splice_doc) =
     (None, \<lparr>content = Some code, writable = True, stdout = [], writes = 1\<rparr>)"
  by (simp add: reconstruct_inventory_def write_file_def fresh_def)

text \<open>
  C8 (out-of-range lookahead). The text \<^const>\<open>cut_doc\<close> ends with an effect line whose
  text occurs nowhere before it, reached in skipping mode. The lookahead indexes past the
  end of the list: the scan raises \<^verbatim>\<open>IndexError\<close>, and the run ends with that error,
  the file not written and nothing printed.
\<close>

theorem lookahead_out_of_range:
  "readlines cut_doc = [marker_line, effect_line]
   \<and> scan (readlines cut_doc) = Inl IndexError
   \<and> fix_builtup (fresh cut_doc) = (Some IndexError, fresh cut_doc)"
proof -
  have "scan [marker_line, effect_line] = Inl IndexError"
    by (simp add: scan_def init_def body_marker marker_line_marker body_raise
          effect_line_plain region_end_cut_doc)
  then have s: "scan (readlines cut_doc) = Inl IndexError"
    by (simp add: readlines_sample)
  from fix_builtup_raise [OF _ _ s, of "fresh cut_doc"] s show ?thesis
    by (simp add: fresh_def readlines_sample valid_sample)
qed




text \<open>
  C10 (prefix preservation). When a run ends without an error, the lines before the first
  line that contains the start marker open the output of the scan, unchanged and in order,
  whether or not an end boundary was found; that output is what the run writes when the
  marker was found, and the file keeps its text otherwise.
\<close>

theorem prefix_preservation:
  assumes "content w = Some txt" and "fix_builtup w = (None, w')"
  shows "\<exists>s. scan (readlines txt) = Inr s
     \<and> prefix (takeWhile (\<lambda>l. \<not> str_in start_marker l) (readlines txt)) (new_lines s)
     \<and> content w' = (if found_marker s then Some (concat (new_lines s)) else Some txt)"
proof (cases "scan (readlines txt)")
  case (Inl e)
  with assms show ?thesis
    by (simp add: fix_builtup_def read_file_def split: if_splits)
next
  case (Inr s)
  have "content w' = (if found_marker s then Some (concat (new_lines s)) else Some txt)"
    using assms Inr
    by (auto simp: fix_builtup_def read_file_def writelines_def write_file_def print_def
             split: if_splits)
  with Inr scan_prefix [OF Inr] show ?thesis
    by simp
qed

theorem prefix_preservation_witness:
  "content (fresh splice_doc) = Some splice_doc
   \<and> fix_builtup (fresh splice_doc) =
       (None, \<lparr>content = Some (close_line @ marker_line @ new_code @ effect_line @ system_line),
               writable = True, stdout = [''Successfully updated the file.''], writes = 1\<rparr>)
   \<and> takeWhile (\<lambda>l. \<not> str_in start_marker l) (readlines splice_doc) = [close_line]
   \<and> (\<exists>s. scan (readlines splice_doc) = Inr s
        \<and> prefix (takeWhile (\<lambda>l. \<not> str_in start_marker l) (readlines splice_doc)) (new_lines s)
        \<and> Some (close_line @ marker_line @ new_code @ effect_line @ system_line) =
            (if found_marker s then Some (concat (new_lines s)) else Some splice_doc))"
proof -
  let ?lines = "[close_line, marker_line, call_line, effect_line, system_line]"
  let ?w' = "\<lparr>content = Some (close_line @ marker_line @ new_code @ effect_line @ system_line),
      writable = True, stdout = [''Successfully updated the file.''], writes = 1\<rparr>"
  have 1: "content (fresh splice_doc) = Some splice_doc"
    by (simp add: fresh_def)
  have "scan ?lines =
      Inr \<lparr>new_lines = [close_line] @ [marker_line] @ [new_code] @ [effect_line] @ [system_line],
           skip = False, found_marker = True\<rparr>"
    using scan_splice [of ?lines "[close_line]" marker_line "[call_line]" effect_line
        "[system_line]"]
    by (simp add: marker_line_marker sample_plain region_end_splice_doc region_end_plain
          sample_no_effect)
  then have s: "scan (readlines splice_doc) =
      Inr \<lparr>new_lines = [close_line, marker_line, new_code, effect_line, system_line],
           skip = False, found_marker = True\<rparr>"
    by (simp add: readlines_sample)
  have 2: "fix_builtup (fresh splice_doc) = (None, ?w')"
    using fix_builtup_found [OF 1 _ s] by (simp add: fresh_def valid_sample)
  have 3: "takeWhile (\<lambda>l. \<not> str_in start_marker l) (readlines splice_doc) = [close_line]"
    by (simp add: readlines_sample sample_plain marker_line_marker)
  from prefix_preservation [OF 1 2] 1 2 3 show ?thesis
    by simp
qed


end
